theory Spec2Isabelle
  imports Main "HOL-Library.Multiset"
begin

section \<open>The type-layout data model (member.py, typeinfo.py, udt.py)\<close>

text \<open>
  Python exceptions that the modelled code can raise.  \<open>Untyped\<close> marks a decoded JSON
  document outside the model: one whose fields do not have the Python types the
  constructors are annotated with (the Python code stores such values unchecked; the typed
  model cannot hold them), or whose keys are not written the way \<open>str\<close> writes an integer.
\<close>

datatype error = ValueError | KeyError | IndexError | AttributeError | TypeError
  | RuntimeError | Untyped

text \<open>
  \<open>Member\<close> subclasses: \<open>Field(name, size, type_name)\<close> and \<open>Padding(size)\<close>.
  Sizes are Python ints.
\<close>

datatype member = Field_m string int string | Padding int

text \<open>
  The \<open>TypeInfo\<close> class hierarchy as one closed sum.  \<open>TypeInfo name size\<close> is the
  base class used for scalars, \<open>Array nelements element_size element_type\<close>,
  \<open>Struct name layout\<close>, \<open>Union_t name members padding\<close>.  A layout element is a
  \<open>Member\<close> or any object with a \<open>size\<close> attribute (the annotations say Struct or Union;
  Python does not check).
\<close>

datatype typeinfo =
    TypeInfo "string option" int
  | Array int int string
  | Pointer string
  | Void
  | Disappear
  | FunctionPointer string
  | Struct "string option" "lay list"
  | Union_t "string option" "lay list" "member option"
and lay = Mem member | Typ typeinfo

fun member_size :: "member \<Rightarrow> int" where
  "member_size (Field_m name sz type_name) = sz"
| "member_size (Padding sz) = sz"

text \<open>Python's \<open>max\<close> of a sequence: \<open>ValueError\<close> on the empty sequence.\<close>

fun py_max :: "int list \<Rightarrow> error + int" where
  "py_max [] = Inl ValueError"
| "py_max (x # xs) = Inr (fold max xs x)"

text \<open>
  The \<open>size\<close> attribute.  \<open>Struct.__init__\<close> sets it to the sum of the layout sizes and
  \<open>fix_bit\<close> reassigns it to that sum after changing member sizes; \<open>Union.__init__\<close> sets it
  to the maximum member size (0 when \<open>max\<close> raises \<open>ValueError\<close>) plus the padding size;
  \<open>Pointer\<close>, \<open>FunctionPointer\<close>, \<open>Void\<close> and \<open>Disappear\<close> have class attributes.
\<close>

fun ti_size :: "typeinfo \<Rightarrow> int" and lay_size :: "lay \<Rightarrow> int" where
  "ti_size (TypeInfo name sz) = sz"
| "ti_size (Array nelements element_size element_type) = element_size * nelements"
| "ti_size (Pointer target_type_name) = 8"
| "ti_size Void = 0"
| "ti_size Disappear = 0"
| "ti_size (FunctionPointer name) = 8"
| "ti_size (Struct name layout) = sum_list (map lay_size layout)"
| "ti_size (Union_t name members padding) =
     (case py_max (map lay_size members) of Inl e \<Rightarrow> 0 | Inr m \<Rightarrow> m)
     + (case padding of None \<Rightarrow> 0 | Some p \<Rightarrow> member_size p)"
| "lay_size (Mem m) = member_size m"
| "lay_size (Typ t) = ti_size t"

text \<open>\<open>isinstance(m, Field)\<close> and \<open>isinstance(m, Padding)\<close> on a layout element.\<close>

fun is_Field :: "lay \<Rightarrow> bool" where
  "is_Field (Mem (Field_m name sz type_name)) = True"
| "is_Field other = False"

fun is_Padding :: "lay \<Rightarrow> bool" where
  "is_Padding (Mem (Padding sz)) = True"
| "is_Padding other = False"

text \<open>\<open>range(a, b)\<close> as a list and \<open>range(n)[::k]\<close> (a zero step raises).\<close>

definition py_range :: "int \<Rightarrow> int \<Rightarrow> int list" where
  "py_range a b = [a..b - 1]"

definition range_step :: "int \<Rightarrow> int \<Rightarrow> error + int list" where
  "range_step n k =
     (if k = 0 then Inl ValueError
      else if 0 < k then Inr (filter (\<lambda>i. i mod k = 0) (py_range 0 n))
      else Inr (rev (filter (\<lambda>i. (n - 1 - i) mod (- k) = 0) (py_range 0 n))))"

subsection \<open>Struct offset walks\<close>

text \<open>
  Each of the three loops of \<open>Struct\<close> walks \<open>layout\<close> with a cursor \<open>current_offset\<close> and
  appends to a result tuple.
\<close>

fun struct_accessible :: "int list \<Rightarrow> int \<Rightarrow> lay list \<Rightarrow> int list" where
  "struct_accessible accessible current_offset [] = accessible"
| "struct_accessible accessible current_offset (m # ms) =
     (let next_offset = current_offset + lay_size m
      in struct_accessible
           (if is_Field m then accessible @ py_range current_offset next_offset
            else accessible)
           next_offset ms)"

fun struct_inaccessible :: "int list \<Rightarrow> int \<Rightarrow> lay list \<Rightarrow> int list" where
  "struct_inaccessible inaccessible current_offset [] = inaccessible"
| "struct_inaccessible inaccessible current_offset (m # ms) =
     (let next_offset = current_offset + lay_size m
      in struct_inaccessible
           (if is_Padding m then inaccessible @ py_range current_offset next_offset
            else inaccessible)
           next_offset ms)"

fun struct_starts :: "int list \<Rightarrow> int \<Rightarrow> lay list \<Rightarrow> int list" where
  "struct_starts starts current_offset [] = starts"
| "struct_starts starts current_offset (m # ms) =
     struct_starts (if is_Field m then starts @ [current_offset] else starts)
       (current_offset + lay_size m) ms"

definition has_padding_struct :: "lay list \<Rightarrow> bool" where
  "has_padding_struct layout = list_ex is_Padding layout"

subsection \<open>accessible\_offsets, inaccessible\_offsets, start\_offsets\<close>

fun accessible_offsets :: "typeinfo \<Rightarrow> error + int list" where
  "accessible_offsets (Struct name layout) = Inr (struct_accessible [] 0 layout)"
| "accessible_offsets (Union_t name members padding) =
     (case py_max (map lay_size members) of
        Inl e \<Rightarrow> Inl e
      | Inr m \<Rightarrow> Inr (py_range 0 m))"
| "accessible_offsets t = Inr (py_range 0 (ti_size t))"

fun inaccessible_offsets :: "typeinfo \<Rightarrow> error + int list" where
  "inaccessible_offsets (Struct name layout) =
     (if \<not> has_padding_struct layout then Inr []
      else Inr (struct_inaccessible [] 0 layout))"
| "inaccessible_offsets (Union_t name members padding) =
     (if padding = None then Inr []
      else case py_max (map lay_size members) of
             Inl e \<Rightarrow> Inl e
           | Inr m \<Rightarrow> Inr (py_range m (ti_size (Union_t name members padding))))"
| "inaccessible_offsets t = Inr []"

fun start_offsets :: "typeinfo \<Rightarrow> error + int list" where
  "start_offsets (Array nelements element_size element_type) =
     range_step (ti_size (Array nelements element_size element_type)) element_size"
| "start_offsets (Struct name layout) = Inr (struct_starts [] 0 layout)"
| "start_offsets t = Inr [0]"

subsection \<open>replacable\_with\<close>

text \<open>
  The loop of \<open>TypeInfo.replacable_with\<close>.  \<open>cur_offset\<close> is set to 0 before the loop and
  the loop body never assigns it, so it is passed along unchanged.
\<close>

definition displace :: "int \<Rightarrow> int list \<Rightarrow> int list" where
  "displace cur_offset offsets = map (\<lambda>off. off + cur_offset) offsets"

fun replacable_loop ::
  "int \<Rightarrow> int list \<times> int list \<times> int list \<Rightarrow> typeinfo list
   \<Rightarrow> error + (int list \<times> int list \<times> int list)" where
  "replacable_loop cur_offset acc [] = Inr acc"
| "replacable_loop cur_offset (other_start, other_accessible, other_inaccessible)
     (other # rest) =
     (case start_offsets other of
        Inl e \<Rightarrow> Inl e
      | Inr s \<Rightarrow>
          (case accessible_offsets other of
             Inl e \<Rightarrow> Inl e
           | Inr a \<Rightarrow>
               (case inaccessible_offsets other of
                  Inl e \<Rightarrow> Inl e
                | Inr i \<Rightarrow>
                    replacable_loop cur_offset
                      (other_start @ displace cur_offset s,
                       other_accessible @ displace cur_offset a,
                       other_inaccessible @ displace cur_offset i) rest)))"

text \<open>
  The final test: \<open>set(self.start_offsets()).issubset(other_start) and
  self.accessible_offsets() == other_accessible and
  self.inaccessible_offsets() == other_inaccessible\<close>, evaluated left to right with
  Python's short-circuit \<open>and\<close>.
\<close>

definition self_matches ::
  "typeinfo \<Rightarrow> int list \<Rightarrow> int list \<Rightarrow> int list \<Rightarrow> error + bool" where
  "self_matches self other_start other_accessible other_inaccessible =
     (case start_offsets self of
        Inl e \<Rightarrow> Inl e
      | Inr ss \<Rightarrow>
          (if \<not> (set ss \<subseteq> set other_start) then Inr False
           else (case accessible_offsets self of
                   Inl e \<Rightarrow> Inl e
                 | Inr sa \<Rightarrow>
                     (if sa \<noteq> other_accessible then Inr False
                      else (case inaccessible_offsets self of
                              Inl e \<Rightarrow> Inl e
                            | Inr si \<Rightarrow> Inr (si = other_inaccessible))))))"

definition replacable_with_base :: "typeinfo \<Rightarrow> typeinfo list \<Rightarrow> error + bool" where
  "replacable_with_base self others =
     (if ti_size self \<noteq> sum_list (map ti_size others) then Inr False
      else (case replacable_loop 0 ([], [], []) others of
              Inl e \<Rightarrow> Inl e
            | Inr (other_start, other_accessible, other_inaccessible) \<Rightarrow>
                self_matches self other_start other_accessible other_inaccessible))"

fun replacable_with :: "typeinfo \<Rightarrow> typeinfo list \<Rightarrow> error + bool" where
  "replacable_with (FunctionPointer name) others = Inr False"
| "replacable_with self others = replacable_with_base self others"


text \<open>Layouts made of \<open>Field\<close> and \<open>Padding\<close> members of non-negative size only.\<close>

fun flat_member :: "lay \<Rightarrow> bool" where
  "flat_member (Mem m) = (0 \<le> member_size m)"
| "flat_member (Typ t) = False"

subsection \<open>Python equality of the classes\<close>

text \<open>
  \<open>__eq__\<close> as the classes define it.  \<open>Field.__eq__\<close> compares \<open>name\<close> and \<open>type_name\<close>
  and not \<open>size\<close>; every subclass of \<open>TypeInfo\<close> overrides \<open>__eq__\<close> with an
  \<open>isinstance\<close> test of its own class, so objects of different classes are unequal.
  \<open>__hash__\<close> is defined on the same attributes, so dictionary and set membership is
  membership up to this relation.
\<close>

fun member_eq :: "member \<Rightarrow> member \<Rightarrow> bool" where
  "member_eq (Field_m name sz type_name) (Field_m name' sz' type_name') =
     (name = name' \<and> type_name = type_name')"
| "member_eq (Padding sz) (Padding sz') = (sz = sz')"
| "member_eq m m' = False"

fun padding_eq :: "member option \<Rightarrow> member option \<Rightarrow> bool" where
  "padding_eq None None = True"
| "padding_eq (Some p) (Some p') = member_eq p p'"
| "padding_eq p p' = False"

fun ti_eq :: "typeinfo \<Rightarrow> typeinfo \<Rightarrow> bool"
  and lay_eq :: "lay \<Rightarrow> lay \<Rightarrow> bool"
  and layout_eq :: "lay list \<Rightarrow> lay list \<Rightarrow> bool" where
  "ti_eq (TypeInfo name sz) other =
     (case other of TypeInfo name' sz' \<Rightarrow> name = name' \<and> sz = sz' | _ \<Rightarrow> False)"
| "ti_eq (Array nelements element_size element_type) other =
     (case other of
        Array nelements' element_size' element_type' \<Rightarrow>
          nelements = nelements' \<and> element_size = element_size'
          \<and> element_type = element_type'
      | _ \<Rightarrow> False)"
| "ti_eq (Pointer target_type_name) other =
     (case other of
        Pointer target_type_name' \<Rightarrow> target_type_name = target_type_name'
      | _ \<Rightarrow> False)"
| "ti_eq Void other = (case other of Void \<Rightarrow> True | _ \<Rightarrow> False)"
| "ti_eq Disappear other = (case other of Disappear \<Rightarrow> True | _ \<Rightarrow> False)"
| "ti_eq (FunctionPointer name) other =
     (case other of FunctionPointer name' \<Rightarrow> name = name' | _ \<Rightarrow> False)"
| "ti_eq (Struct name layout) other =
     (case other of
        Struct name' layout' \<Rightarrow> name = name' \<and> layout_eq layout layout'
      | _ \<Rightarrow> False)"
| "ti_eq (Union_t name members padding) other =
     (case other of
        Union_t name' members' padding' \<Rightarrow>
          name = name' \<and> layout_eq members members' \<and> padding_eq padding padding'
      | _ \<Rightarrow> False)"
| "lay_eq (Mem m) other = (case other of Mem m' \<Rightarrow> member_eq m m' | _ \<Rightarrow> False)"
| "lay_eq (Typ t) other = (case other of Typ t' \<Rightarrow> ti_eq t t' | _ \<Rightarrow> False)"
| "layout_eq [] others = (others = [])"
| "layout_eq (l # ls) others =
     (case others of [] \<Rightarrow> False | l' # ls' \<Rightarrow> lay_eq l l' \<and> layout_eq ls ls')"

section \<open>Entry and EntryList (typelib.py)\<close>

text \<open>\<open>Entry\<close> is a named tuple \<open>(frequency, typeinfo)\<close>.\<close>

datatype entry = Entry (frequency: int) (typeinfo: typeinfo)

definition inc :: "entry \<Rightarrow> int \<Rightarrow> entry" where
  "inc e v = Entry (frequency e + v) (typeinfo e)"

text \<open>
  \<open>EntryList._data\<close> is a \<open>ValueSortedDict\<close> from \<open>TypeInfo\<close> to \<open>Entry\<close>.  That class
  (package \<open>sortedcollections\<close>) is not part of the repository.  It is a dictionary that
  keeps its keys in a \<open>SortedKeyList\<close> (package \<open>sortedcontainers\<close>), the sort key of a
  dictionary key being its value; iteration follows that list.  \<open>Entry.__lt__\<close> compares
  by frequency, so the keys stand in ascending order of frequency.

  The dictionary is modelled as the list of its values in iteration order.  The key of an
  entry equals (\<open>__eq__\<close>) the entry's \<open>typeinfo\<close>, and the code reads keys through
  \<open>__eq__\<close> and \<open>__hash__\<close> only (which no assignment of \<open>fix_bit\<close> changes), so the key
  is represented by the entry's \<open>typeinfo\<close>.
\<close>

type_synonym entrylist = "entry list"

text \<open>\<open>item in self._data\<close> and \<open>self._data.get(item)\<close>.\<close>

definition el_get :: "entrylist \<Rightarrow> typeinfo \<Rightarrow> entry option" where
  "el_get el item = find (\<lambda>e. ti_eq (typeinfo e) item) el"

definition el_contains :: "entrylist \<Rightarrow> typeinfo \<Rightarrow> bool" where
  "el_contains el item = list_ex (\<lambda>e. ti_eq (typeinfo e) item) el"

text \<open>
  \<open>SortedKeyList.add\<close> puts a key at \<open>bisect_right\<close> of its sort key: behind the entries
  that are not greater.
\<close>

fun sorted_add :: "entry \<Rightarrow> entrylist \<Rightarrow> entrylist" where
  "sorted_add e [] = [e]"
| "sorted_add e (x # xs) =
     (if frequency e < frequency x then e # x # xs else x # sorted_add e xs)"

text \<open>
  \<open>SortedKeyList.remove(value)\<close> with the sort key \<open>key\<close> of \<open>value\<close> (the entry stored for
  it): \<open>bisect_left\<close> goes to the first entry that is not less than \<open>key\<close>; from there
  the loop raises \<open>ValueError\<close> at an entry with \<open>_keys[pos][idx] != key\<close>, deletes the
  entry whose dictionary key equals \<open>value\<close>, and steps on otherwise (\<open>ValueError\<close> at the
  end of the list).  \<open>Entry\<close> defines \<open>__eq__\<close> and no \<open>__ne__\<close>, so \<open>!=\<close> is the one of
  tuples: the frequencies differ or the types are unequal.
\<close>

fun remove_scan :: "entrylist \<Rightarrow> entry \<Rightarrow> typeinfo \<Rightarrow> error + entrylist" where
  "remove_scan [] key val = Inl ValueError"
| "remove_scan (x # rest) key val =
     (if frequency x \<noteq> frequency key \<or> \<not> ti_eq (typeinfo x) (typeinfo key)
      then Inl ValueError
      else if ti_eq (typeinfo x) val then Inr rest
      else (case remove_scan rest key val of
              Inl e \<Rightarrow> Inl e
            | Inr rest' \<Rightarrow> Inr (x # rest')))"

definition list_remove :: "entrylist \<Rightarrow> entry \<Rightarrow> typeinfo \<Rightarrow> error + entrylist" where
  "list_remove el key val =
     (case remove_scan (dropWhile (\<lambda>x. frequency x < frequency key) el) key val of
        Inl e \<Rightarrow> Inl e
      | Inr rest \<Rightarrow> Inr (takeWhile (\<lambda>x. frequency x < frequency key) el @ rest))"

text \<open>
  \<open>self._data[item] = entry\<close>, that is \<open>ValueSortedDict.__setitem__\<close>: a present key is
  first removed from the sorted list (which can raise, before anything is changed), then
  the pair is stored and the key added to the list.  The result is the exception, if any,
  and the list afterwards.
\<close>

definition el_set :: "entrylist \<Rightarrow> typeinfo \<Rightarrow> entry \<Rightarrow> error option \<times> entrylist" where
  "el_set el item e =
     (case el_get el item of
        None \<Rightarrow> (None, sorted_add e el)
      | Some old \<Rightarrow>
          (case list_remove el old item of
             Inl err \<Rightarrow> (Some err, el)
           | Inr el' \<Rightarrow> (None, sorted_add e el')))"

text \<open>
  \<open>_initialize_data(data, freq)\<close>: the dictionary comprehension
  \<open>{t.typeinfo: t for t in data if t.frequency >= freq}\<close> (a repeated key keeps its
  position and takes the later value), then sorted by value (a stable sort).
\<close>

fun comprehension_put :: "entry \<Rightarrow> entry list \<Rightarrow> entry list" where
  "comprehension_put t d =
     (if list_ex (\<lambda>x. ti_eq (typeinfo x) (typeinfo t)) d
      then map (\<lambda>x. if ti_eq (typeinfo x) (typeinfo t) then t else x) d
      else d @ [t])"

definition initialize_data :: "entry list \<Rightarrow> int \<Rightarrow> entrylist" where
  "initialize_data data_in freq =
     sort_key frequency
       (fold comprehension_put (filter (\<lambda>t. freq \<le> frequency t) data_in) [])"

text \<open>\<open>EntryList(data)\<close> with the default \<open>freq = -1\<close>.\<close>

definition EntryList :: "entry list \<Rightarrow> entrylist" where
  "EntryList data_in = initialize_data data_in (- 1)"

text \<open>
  \<open>add_n\<close>: the result (or the exception of the assignment) and the list afterwards.  The
  source ends with \<open>return True  # should return exists\<close>.
\<close>

definition add_n :: "entrylist \<Rightarrow> typeinfo \<Rightarrow> int \<Rightarrow> (error + bool) \<times> entrylist" where
  "add_n el item n =
     (let entry = inc (case el_get el item of None \<Rightarrow> Entry 0 item | Some e \<Rightarrow> e) n
      in case el_set el item entry of
           (Some err, el') \<Rightarrow> (Inl err, el')
         | (None, el') \<Rightarrow> (Inr True, el'))"

definition add :: "entrylist \<Rightarrow> typeinfo \<Rightarrow> (error + bool) \<times> entrylist" where
  "add el item = add_n el item 1"

definition add_entry :: "entrylist \<Rightarrow> entry \<Rightarrow> (error + bool) \<times> entrylist" where
  "add_entry el e = add_n el (typeinfo e) (frequency e)"

text \<open>\<open>add_all\<close>: the loop ends at the first exception.\<close>

fun add_all :: "entrylist \<Rightarrow> entrylist \<Rightarrow> error option \<times> entrylist" where
  "add_all el [] = (None, el)"
| "add_all el (e # rest) =
     (case add_entry el e of
        (Inl err, el') \<Rightarrow> (Some err, el')
      | (Inr existed, el') \<Rightarrow> add_all el' rest)"

text \<open>
  \<open>get_freq\<close>: \<open>self._data[item].freqency if item in self._data else None\<close>.  \<open>Entry\<close> has
  the attributes \<open>frequency\<close> and \<open>typeinfo\<close>; reading \<open>freqency\<close> raises
  \<open>AttributeError\<close>.
\<close>

definition get_freq :: "entrylist \<Rightarrow> typeinfo \<Rightarrow> error + int option" where
  "get_freq el item = (if el_contains el item then Inl AttributeError else Inr None)"

definition el_prune :: "entrylist \<Rightarrow> int \<Rightarrow> entrylist" where
  "el_prune el freq = initialize_data el freq"

section \<open>TypeLib (typelib.py)\<close>

subsection \<open>Dictionaries in insertion order\<close>

text \<open>
  A Python dictionary is modelled as an association list with distinct keys in insertion
  order: assignment to an existing key keeps its position, a new key goes last.
\<close>

definition dict_contains :: "('k \<times> 'v) list \<Rightarrow> 'k \<Rightarrow> bool" where
  "dict_contains d k = list_ex (\<lambda>p. fst p = k) d"

fun dict_set :: "('k \<times> 'v) list \<Rightarrow> 'k \<Rightarrow> 'v \<Rightarrow> ('k \<times> 'v) list" where
  "dict_set [] k v = [(k, v)]"
| "dict_set (p # ps) k v = (if fst p = k then (k, v) # ps else p # dict_set ps k v)"

definition dict_pop :: "('k \<times> 'v) list \<Rightarrow> 'k \<Rightarrow> ('k \<times> 'v) list" where
  "dict_pop d k = filter (\<lambda>p. fst p \<noteq> k) d"

subsection \<open>The library object\<close>

text \<open>
  \<open>cached_replacement_dict\<close> is a \<open>defaultdict(set)\<close> keyed by the pair of tuples
  (accessible offsets, start offsets).  A set of \<open>TypeInfo\<close> is modelled by the list of its
  elements, pairwise unequal under \<open>__eq__\<close>; Python fixes no order for it.
\<close>

type_synonym cache = "((int list \<times> int list) \<times> typeinfo list) list"

text \<open>
  A \<open>TypeLibABC\<close> object: \<open>_data\<close>, a \<open>defaultdict(EntryList)\<close> from size to entry list,
  and the attribute \<open>cached_replacement_dict\<close>, absent (\<open>None\<close>) until
  \<open>make_cached_replacement_dict\<close> has run.
\<close>

record typelib =
  data :: "(int \<times> entrylist) list"
  cached_replacement_dict :: "cache option"

text \<open>\<open>cls()\<close>: a library with no bucket and no cache attribute.\<close>

definition new_typelib :: typelib where
  "new_typelib = \<lparr>data = [], cached_replacement_dict = None\<rparr>"

text \<open>\<open>self[key]\<close> on the \<open>defaultdict\<close>: a missing key is inserted with \<open>EntryList()\<close>.\<close>

definition lib_getitem :: "typelib \<Rightarrow> int \<Rightarrow> entrylist \<times> typelib" where
  "lib_getitem self key =
     (case map_of (data self) key of
        Some el \<Rightarrow> (el, self)
      | None \<Rightarrow> (EntryList [], self\<lparr>data := dict_set (data self) key (EntryList [])\<rparr>))"

definition add_entry_list :: "typelib \<Rightarrow> int \<Rightarrow> entrylist \<Rightarrow> error option \<times> typelib" where
  "add_entry_list self sz entries =
     (if dict_contains (data self) sz
      then (let (el, self1) = lib_getitem self sz;
                (err, el') = add_all el entries
            in (err, self1\<lparr>data := dict_set (data self1) sz el'\<rparr>))
      else (None, self\<lparr>data := dict_set (data self) sz entries\<rparr>))"

definition lib_add :: "typelib \<Rightarrow> typeinfo \<Rightarrow> error option \<times> typelib" where
  "lib_add self typ =
     (case add (EntryList []) typ of
        (Inl err, entry) \<Rightarrow> (Some err, self)
      | (Inr existed, entry) \<Rightarrow> add_entry_list self (ti_size typ) entry)"

subsection \<open>fix\_bit and fix\<close>

text \<open>
  \<open>fix_bit\<close> changes the objects it is given: \<open>m.size //= 8\<close> on each \<open>Field\<close> and
  \<open>typ.size = sum(...)\<close> on each struct it visits.  The model returns the changed value
  next to the result.  Values are trees: no object is reachable twice (as the decoder and
  \<open>parse_type\<close> build them), so a change is seen exactly where the changed value stands.

  \<open>fix_bit_layout succeed layout\<close> is the loop over \<open>typ.layout\<close> from a given value of
  \<open>succeed\<close>: a \<open>Field\<close> whose size is no multiple of 8 (or any \<open>Field\<close> once \<open>succeed\<close> is
  false) ends the loop; a nested \<open>Struct\<close> is converted by a recursive call, whatever
  \<open>succeed\<close> is; other elements are skipped.
\<close>

fun fix_bit_layout :: "bool \<Rightarrow> lay list \<Rightarrow> bool \<times> lay list" where
  "fix_bit_layout succeed [] = (succeed, [])"
| "fix_bit_layout succeed (Mem (Field_m name sz type_name) # ms) =
     (let succeed' = (succeed \<and> sz mod 8 = 0)
      in if \<not> succeed' then (succeed', Mem (Field_m name sz type_name) # ms)
         else (let (r, ms') = fix_bit_layout succeed' ms
               in (r, Mem (Field_m name (sz div 8) type_name) # ms')))"
| "fix_bit_layout succeed (Typ (Struct name layout) # ms) =
     (let (inner, layout') = fix_bit_layout True layout;
          (r, ms') = fix_bit_layout (succeed \<and> inner) ms
      in (r, Typ (Struct name layout') # ms'))"
| "fix_bit_layout succeed (m # ms) =
     (let (r, ms') = fix_bit_layout succeed ms in (r, m # ms'))"

text \<open>\<open>fix_bit(typ)\<close> for the struct \<open>typ = Struct name layout\<close>.\<close>

definition fix_bit :: "string option \<Rightarrow> lay list \<Rightarrow> bool \<times> typeinfo" where
  "fix_bit name layout =
     (let (succeed, layout') = fix_bit_layout True layout in (succeed, Struct name layout'))"

text \<open>
  The two statements of \<open>fix\<close> that store an entry:
  \<open>if nsize not in new_lib: new_lib.add_entry_list(nsize, EntryList())\<close> and
  \<open>new_lib[nsize].add_entry(entry)\<close>.
\<close>

definition new_lib_store :: "typelib \<Rightarrow> int \<Rightarrow> entry \<Rightarrow> error option \<times> typelib" where
  "new_lib_store new_lib nsize e =
     (case (if \<not> dict_contains (data new_lib) nsize
            then add_entry_list new_lib nsize (EntryList [])
            else (None, new_lib)) of
        (Some err, lib1) \<Rightarrow> (Some err, lib1)
      | (None, lib1) \<Rightarrow>
          (let (el, lib2) = lib_getitem lib1 nsize
           in case add_entry el e of
                (Inl err, el') \<Rightarrow> (Some err, lib2\<lparr>data := dict_set (data lib2) nsize el'\<rparr>)
              | (Inr existed, el') \<Rightarrow>
                  (None, lib2\<lparr>data := dict_set (data lib2) nsize el'\<rparr>)))"

text \<open>
  The body of the inner loop of \<open>fix\<close> for one entry of the bucket \<open>sz\<close>: the entry as it
  stands in the source library afterwards, the exception if the store raised, and the new
  library.
\<close>

definition fix_entry :: "int \<Rightarrow> entry \<Rightarrow> typelib \<Rightarrow> entry \<times> error option \<times> typelib" where
  "fix_entry sz e new_lib =
     (case typeinfo e of
        Struct name layout \<Rightarrow>
          (let (succeed, typ) = fix_bit name layout;
               e' = Entry (frequency e) typ;
               nsize = ti_size typ
           in (e', if succeed then new_lib_store new_lib nsize e' else (None, new_lib)))
      | _ \<Rightarrow> (e, new_lib_store new_lib sz e))"

text \<open>The two loops: an exception ends them, and the entries not reached stay as they are.\<close>

fun fix_entries :: "int \<Rightarrow> entry list \<Rightarrow> typelib \<Rightarrow> entry list \<times> error option \<times> typelib" where
  "fix_entries sz [] new_lib = ([], None, new_lib)"
| "fix_entries sz (e # rest) new_lib =
     (case fix_entry sz e new_lib of
        (e', Some err, lib1) \<Rightarrow> (e' # rest, Some err, lib1)
      | (e', None, lib1) \<Rightarrow>
          (let (rest', r) = fix_entries sz rest lib1 in (e' # rest', r)))"

fun fix_buckets ::
  "(int \<times> entrylist) list \<Rightarrow> typelib
   \<Rightarrow> (int \<times> entrylist) list \<times> error option \<times> typelib" where
  "fix_buckets [] new_lib = ([], None, new_lib)"
| "fix_buckets ((sz, el) # rest) new_lib =
     (case fix_entries sz el new_lib of
        (el', Some err, lib1) \<Rightarrow> ((sz, el') # rest, Some err, lib1)
      | (el', None, lib1) \<Rightarrow>
          (let (rest', r) = fix_buckets rest lib1 in ((sz, el') # rest', r)))"

text \<open>
  \<open>fix\<close> (\<open>fix_lib\<close> here).  The result is \<open>_data\<close> of the source library after the call,
  and the exception or the returned library (after an exception the new library is
  lost).  If the source library has a \<open>cached_replacement_dict\<close>, its sets hold the very
  objects that \<open>fix_bit\<close> changes; what becomes of that cache is not part of the result.
  The entries are values here: the structs of a library are taken to be separate objects
  (a \<open>Struct\<close> object that the library reaches twice would be converted twice).
\<close>

definition fix_lib :: "typelib \<Rightarrow> (int \<times> entrylist) list \<times> (error + typelib)" where
  "fix_lib self =
     (case fix_buckets (data self) new_typelib of
        (d, Some err, new_lib) \<Rightarrow> (d, Inl err)
      | (d, None, new_lib) \<Rightarrow> (d, Inr new_lib))"

subsection \<open>prune\<close>

text \<open>
  The first loop prunes every bucket.  The second loop iterates \<open>self._data.items()\<close> and
  pops the key of an empty bucket inside the loop; the dictionary has then changed size,
  and the iterator's next step (also the one that would end the loop) raises
  \<open>RuntimeError\<close>.  The result is the exception, if any, and the library as the call
  leaves it.
\<close>

definition prune_buckets :: "(int \<times> entrylist) list \<Rightarrow> int \<Rightarrow> (int \<times> entrylist) list" where
  "prune_buckets d freq = map (\<lambda>p. (fst p, el_prune (snd p) freq)) d"

fun prune_pop_loop ::
  "(int \<times> entrylist) list \<Rightarrow> (int \<times> entrylist) list
   \<Rightarrow> error option \<times> (int \<times> entrylist) list" where
  "prune_pop_loop [] d = (None, d)"
| "prune_pop_loop ((key, el) # rest) d =
     (if length el = 0 then (Some RuntimeError, dict_pop d key)
      else prune_pop_loop rest d)"

definition prune :: "typelib \<Rightarrow> int \<Rightarrow> error option \<times> typelib" where
  "prune self freq =
     (let d1 = prune_buckets (data self) freq;
          (err, d2) = prune_pop_loop d1 d1
      in (err, self\<lparr>data := d2\<rparr>))"

subsection \<open>What fix leaves behind, entry by entry\<close>











subsection \<open>The replacement cache and get\_next\_replacements\<close>

text \<open>\<open>s.add(typeinfo)\<close> on a set, and \<open>cache[key].add(typeinfo)\<close> on the \<open>defaultdict(set)\<close>.\<close>

definition set_add :: "typeinfo list \<Rightarrow> typeinfo \<Rightarrow> typeinfo list" where
  "set_add s t = (if list_ex (\<lambda>x. ti_eq x t) s then s else s @ [t])"

definition cache_add :: "cache \<Rightarrow> int list \<times> int list \<Rightarrow> typeinfo \<Rightarrow> cache" where
  "cache_add c key t =
     dict_set c key (set_add (case map_of c key of None \<Rightarrow> [] | Some s \<Rightarrow> s) t)"

text \<open>
  \<open>make_cached_replacement_dict\<close> assigns a fresh \<open>defaultdict(set)\<close> to the attribute and
  then fills it, skipping buckets of size above 1024.  \<open>accessible_offsets\<close> and
  \<open>start_offsets\<close> can raise; the attribute then keeps what was filled so far.
\<close>

fun cache_entries :: "cache \<Rightarrow> entry list \<Rightarrow> error option \<times> cache" where
  "cache_entries c [] = (None, c)"
| "cache_entries c (e # es) =
     (case accessible_offsets (typeinfo e) of
        Inl err \<Rightarrow> (Some err, c)
      | Inr a \<Rightarrow>
          (case start_offsets (typeinfo e) of
             Inl err \<Rightarrow> (Some err, c)
           | Inr s \<Rightarrow> cache_entries (cache_add c (a, s) (typeinfo e)) es))"

fun cache_buckets :: "cache \<Rightarrow> (int \<times> entrylist) list \<Rightarrow> error option \<times> cache" where
  "cache_buckets c [] = (None, c)"
| "cache_buckets c ((sz, el) # rest) =
     (if 1024 < sz then cache_buckets c rest
      else (case cache_entries c el of
              (Some err, c') \<Rightarrow> (Some err, c')
            | (None, c') \<Rightarrow> cache_buckets c' rest))"

definition make_cached_replacement_dict :: "typelib \<Rightarrow> error option \<times> typelib" where
  "make_cached_replacement_dict self =
     (let (err, c) = cache_buckets [] (data self)
      in (err, self\<lparr>cached_replacement_dict := Some c\<rparr>))"

text \<open>
  One candidate of \<open>get_next_replacements\<close>: the type set, the remaining accessible
  offsets, the remaining start offsets.
\<close>

type_synonym replacement = "typeinfo list \<times> int list \<times> int list"

text \<open>
  The loop over the bucket sizes.  Reading \<open>cached_replacement_dict[key]\<close> for a key the
  cache lacks stores an empty set under it (\<open>defaultdict\<close>) and yields that set, so the
  cache is part of the loop state.  \<open>hd\<close> is applied to non-empty lists only.
\<close>

fun replacements_loop ::
  "int list \<Rightarrow> int list \<Rightarrow> int \<Rightarrow> int list \<Rightarrow> cache \<Rightarrow> replacement list
   \<Rightarrow> replacement list \<times> cache" where
  "replacements_loop accessible start_offs start [] c replacements = (replacements, c)"
| "replacements_loop accessible start_offs start (sz # sizes) c replacements =
     (let rest_accessible = filter (\<lambda>s. sz + start \<le> s) accessible;
          rest_start = filter (\<lambda>s. sz + start \<le> s) start_offs
      in if length rest_start \<noteq> 0
            \<and> (length rest_accessible = 0 \<or> hd rest_start \<noteq> hd rest_accessible)
         then replacements_loop accessible start_offs start sizes c replacements
         else if length rest_start = 0 \<and> length rest_accessible \<noteq> 0
         then replacements_loop accessible start_offs start sizes c replacements
         else (let shifted_cur_accessible =
                     map (\<lambda>s. s - start) (filter (\<lambda>s. s < sz + start) accessible);
                   shifted_cur_start =
                     map (\<lambda>s. s - start) (filter (\<lambda>s. s < sz + start) start_offs);
                   key = (shifted_cur_accessible, shifted_cur_start);
                   typs = (case map_of c key of None \<Rightarrow> [] | Some s \<Rightarrow> s);
                   c' = (case map_of c key of None \<Rightarrow> dict_set c key [] | Some s \<Rightarrow> c)
               in replacements_loop accessible start_offs start sizes c'
                    (replacements @ [(typs, rest_accessible, rest_start)])))"

text \<open>
  \<open>get_next_replacements\<close>: the result (or the exception) and the library afterwards.
  The cache is built when the attribute is missing, and only then; after this step the
  attribute exists.  \<open>accessible[0]\<close> and \<open>start_offsets[0]\<close> raise \<open>IndexError\<close> on
  an empty tuple.
\<close>

definition get_next_replacements ::
  "typelib \<Rightarrow> int list \<Rightarrow> int list \<Rightarrow> (error + replacement list) \<times> typelib" where
  "get_next_replacements self accessible start_offs =
     (let (err, self1) = (case cached_replacement_dict self of
                            None \<Rightarrow> make_cached_replacement_dict self
                          | Some c \<Rightarrow> (None, self))
      in case err of
           Some e \<Rightarrow> (Inl e, self1)
         | None \<Rightarrow>
            (case accessible of
               [] \<Rightarrow> (Inl IndexError, self1)
             | start # accessible_tl \<Rightarrow>
                 (case start_offs of
                    [] \<Rightarrow> (Inl IndexError, self1)
                  | first_start # start_tl \<Rightarrow>
                      if start \<noteq> first_start then (Inr [], self1)
                      else (let len = (last accessible - start) + 1;
                                sizes = filter (\<lambda>s. s \<le> len \<and> s \<noteq> 0)
                                          (map fst (data self1));
                                c = (case cached_replacement_dict self1 of
                                       None \<Rightarrow> [] | Some c \<Rightarrow> c);
                                (replacements, c') =
                                  replacements_loop accessible start_offs start sizes c []
                            in (Inr replacements,
                                self1\<lparr>cached_replacement_dict := Some c'\<rparr>)))))"

section \<open>TypeLibCodec (typelib.py)\<close>

subsection \<open>JSON documents and decoded values\<close>

text \<open>
  \<open>encode\<close> is \<open>json.dumps\<close> with an encoder whose \<open>default\<close> calls \<open>_to_json\<close>, and \<open>decode\<close>
  is \<open>json.loads\<close> with \<open>read_metadata\<close> as \<open>object_hook\<close>.  The text between the two is
  left out: a document is the JSON tree that \<open>dumps\<close> writes and \<open>loads\<close> parses.  The
  encoder emits no floats and no booleans, so the tree has none.
\<close>

datatype json = JNull | JInt int | JStr string | JList "json list"
  | JObj "(string \<times> json) list"

text \<open>The objects the codec handles (\<open>CodecTypes\<close>).\<close>

datatype codec_obj = OTypeLib typelib | OEntryList entrylist | OTypeInfo typeinfo
  | OMember member

text \<open>What \<open>loads\<close> returns: JSON scalars and lists, and whatever the hook made of objects.\<close>

datatype pyval = PNone | PInt int | PStr string | PList "pyval list" | PObj codec_obj

subsection \<open>str and int on dictionary keys\<close>

definition digit_char :: "nat \<Rightarrow> char" where
  "digit_char d = ''0123456789'' ! d"

function str_nat :: "nat \<Rightarrow> string" where
  "str_nat n = (if n < 10 then [digit_char n] else str_nat (n div 10) @ [digit_char (n mod 10)])"
  by pat_completeness auto
termination
  by (relation "measure id") auto

definition str_int :: "int \<Rightarrow> string" where
  "str_int i = (if i < 0 then CHR ''-'' # str_nat (nat (- i)) else str_nat (nat i))"

definition digit_val :: "char \<Rightarrow> nat option" where
  "digit_val c = map_of (zip ''0123456789'' [0 ..< 10]) c"

fun parse_digits :: "nat \<Rightarrow> string \<Rightarrow> nat option" where
  "parse_digits acc [] = Some acc"
| "parse_digits acc (c # cs) =
     (case digit_val c of None \<Rightarrow> None | Some d \<Rightarrow> parse_digits (10 * acc + d) cs)"

text \<open>
  \<open>int(key)\<close> is modelled for the keys \<open>str\<close> writes: an optional sign followed by ASCII
  digits.  What Python makes of any other string (it accepts surrounding white space,
  underscores between digits and non-ASCII digits, and raises \<open>ValueError\<close> otherwise) is
  outside the model: \<open>Untyped\<close>.
\<close>

definition int_of_str :: "string \<Rightarrow> error + int" where
  "int_of_str s =
     (case s of
        [] \<Rightarrow> Inl Untyped
      | c # cs \<Rightarrow>
          (if c = CHR ''-'' \<or> c = CHR ''+''
           then (case (cs, parse_digits 0 cs) of
                   (d # ds, Some n) \<Rightarrow> Inr (if c = CHR ''-'' then - int n else int n)
                 | _ \<Rightarrow> Inl Untyped)
           else (case parse_digits 0 s of
                   Some n \<Rightarrow> Inr (int n)
                 | None \<Rightarrow> Inl Untyped)))"

subsection \<open>Encoding: the \_to\_json methods\<close>

definition opt_str :: "string option \<Rightarrow> json" where
  "opt_str name = (case name of None \<Rightarrow> JNull | Some s \<Rightarrow> JStr s)"

fun member_to_json :: "member \<Rightarrow> json" where
  "member_to_json (Field_m name sz type_name) =
     JObj [(''T'', JInt 4), (''n'', JStr name), (''t'', JStr type_name), (''s'', JInt sz)]"
| "member_to_json (Padding sz) = JObj [(''T'', JInt 5), (''s'', JInt sz)]"

text \<open>
  \<open>Union._to_json\<close> writes the tag 8, the tag \<open>Void._to_json\<close> writes; its \<open>"p"\<close> is the
  padding object, which the encoder's \<open>default\<close> turns into JSON in its turn.
\<close>

fun typeinfo_to_json :: "typeinfo \<Rightarrow> json" and lay_to_json :: "lay \<Rightarrow> json" where
  "typeinfo_to_json (TypeInfo name sz) =
     JObj [(''T'', JInt 1), (''n'', opt_str name), (''s'', JInt sz)]"
| "typeinfo_to_json (Array nelements element_size element_type) =
     JObj [(''T'', JInt 2), (''n'', JInt nelements), (''s'', JInt element_size),
           (''t'', JStr element_type)]"
| "typeinfo_to_json (Pointer target_type_name) =
     JObj [(''T'', JInt 3), (''t'', JStr target_type_name)]"
| "typeinfo_to_json Void = JObj [(''T'', JInt 8)]"
| "typeinfo_to_json Disappear = JObj [(''T'', JInt 10)]"
| "typeinfo_to_json (FunctionPointer name) = JObj [(''T'', JInt 9), (''n'', JStr name)]"
| "typeinfo_to_json (Struct name layout) =
     JObj [(''T'', JInt 6), (''n'', opt_str name), (''l'', JList (map lay_to_json layout))]"
| "typeinfo_to_json (Union_t name members padding) =
     JObj [(''T'', JInt 8), (''n'', opt_str name),
           (''m'', JList (map lay_to_json members)),
           (''p'', case padding of None \<Rightarrow> JNull | Some p \<Rightarrow> member_to_json p)]"
| "lay_to_json (Mem m) = member_to_json m"
| "lay_to_json (Typ t) = typeinfo_to_json t"

text \<open>
  \<open>EntryList._to_json\<close> returns \<open>self._data\<close>, a dictionary whose keys are \<open>TypeInfo\<close>
  objects.  \<open>json\<close> writes an empty dictionary as \<open>{}\<close> and raises \<open>TypeError\<close> at the first
  key that is no \<open>str\<close>, \<open>int\<close>, \<open>float\<close>, \<open>bool\<close> or \<open>None\<close>.
\<close>

definition entrylist_to_json :: "entrylist \<Rightarrow> error + json" where
  "entrylist_to_json el = (if el = [] then Inr (JObj []) else Inl TypeError)"

text \<open>
  \<open>TypeLibABC._to_json\<close>: \<open>{str(key): val._to_json() for key, val in self._data.items()}\<close>,
  then \<open>encoded["T"] = 0\<close>.
\<close>

fun buckets_to_json :: "(int \<times> entrylist) list \<Rightarrow> error + (string \<times> json) list" where
  "buckets_to_json [] = Inr []"
| "buckets_to_json ((key, el) # rest) =
     (case entrylist_to_json el of
        Inl e \<Rightarrow> Inl e
      | Inr j \<Rightarrow>
          (case buckets_to_json rest of
             Inl e \<Rightarrow> Inl e
           | Inr js \<Rightarrow> Inr ((str_int key, j) # js)))"

definition typelib_to_json :: "typelib \<Rightarrow> error + json" where
  "typelib_to_json lib =
     (case buckets_to_json (data lib) of
        Inl e \<Rightarrow> Inl e
      | Inr js \<Rightarrow> Inr (JObj (js @ [(''T'', JInt 0)])))"

fun encode :: "codec_obj \<Rightarrow> error + json" where
  "encode (OTypeLib lib) = typelib_to_json lib"
| "encode (OEntryList el) = entrylist_to_json el"
| "encode (OTypeInfo t) = Inr (typeinfo_to_json t)"
| "encode (OMember m) = Inr (member_to_json m)"

subsection \<open>Decoding: read\_metadata and the \_from\_json methods\<close>

text \<open>
  The hook receives the dictionary of an object after its values were decoded.  \<open>d[k]\<close>
  raises \<open>KeyError\<close> for a missing key; of a repeated key the last value counts.
\<close>

definition py_get :: "(string \<times> pyval) list \<Rightarrow> string \<Rightarrow> error + pyval" where
  "py_get d k = (case map_of (rev d) k of None \<Rightarrow> Inl KeyError | Some v \<Rightarrow> Inr v)"

text \<open>
  The constructors store their arguments unchecked.  The model is typed, so an argument
  of another Python type than the annotated one gives \<open>Untyped\<close>; no document written by
  \<open>encode\<close> has one.
\<close>

fun as_int :: "pyval \<Rightarrow> error + int" where
  "as_int (PInt i) = Inr i"
| "as_int v = Inl Untyped"

fun as_str :: "pyval \<Rightarrow> error + string" where
  "as_str (PStr s) = Inr s"
| "as_str v = Inl Untyped"

fun as_opt_str :: "pyval \<Rightarrow> error + string option" where
  "as_opt_str PNone = Inr None"
| "as_opt_str (PStr s) = Inr (Some s)"
| "as_opt_str v = Inl Untyped"

text \<open>
  A layout or member sequence: \<open>tuple(layout)\<close>, then \<open>.size\<close> is read of every element
  (\<open>AttributeError\<close> where there is none).  A non-iterable argument raises \<open>TypeError\<close>.
\<close>

fun as_lay :: "pyval \<Rightarrow> error + lay" where
  "as_lay (PObj (OMember m)) = Inr (Mem m)"
| "as_lay (PObj (OTypeInfo t)) = Inr (Typ t)"
| "as_lay v = Inl AttributeError"

fun as_lays :: "pyval list \<Rightarrow> error + lay list" where
  "as_lays [] = Inr []"
| "as_lays (v # vs) =
     (case as_lay v of
        Inl e \<Rightarrow> Inl e
      | Inr l \<Rightarrow> (case as_lays vs of Inl e \<Rightarrow> Inl e | Inr ls \<Rightarrow> Inr (l # ls)))"

fun as_layout :: "pyval \<Rightarrow> error + lay list" where
  "as_layout (PList vs) = as_lays vs"
| "as_layout (PStr s) = (if s = [] then Inr [] else Inl AttributeError)"
| "as_layout (PObj (OTypeLib lib)) = (if data lib = [] then Inr [] else Inl AttributeError)"
| "as_layout (PObj (OEntryList el)) = (if el = [] then Inr [] else Inl AttributeError)"
| "as_layout v = Inl TypeError"

text \<open>
  The \<open>padding\<close> argument of \<open>Union\<close>: \<open>None\<close>, or an object whose \<open>size\<close> is read.  A
  \<open>TypeInfo\<close> object would be accepted by Python and is outside the typed model.
\<close>

fun as_padding :: "pyval \<Rightarrow> error + member option" where
  "as_padding PNone = Inr None"
| "as_padding (PObj (OMember m)) = Inr (Some m)"
| "as_padding (PObj (OTypeInfo t)) = Inl Untyped"
| "as_padding v = Inl AttributeError"

text \<open>The \<open>_from_json\<close> class methods, one per class of the decoder table.\<close>

definition TypeInfo_from_json :: "(string \<times> pyval) list \<Rightarrow> error + pyval" where
  "TypeInfo_from_json d =
     (case py_get d ''n'' of Inl e \<Rightarrow> Inl e | Inr n \<Rightarrow>
     (case py_get d ''s'' of Inl e \<Rightarrow> Inl e | Inr s \<Rightarrow>
     (case as_opt_str n of Inl e \<Rightarrow> Inl e | Inr name \<Rightarrow>
     (case as_int s of Inl e \<Rightarrow> Inl e | Inr sz \<Rightarrow>
        Inr (PObj (OTypeInfo (TypeInfo name sz)))))))"

definition Array_from_json :: "(string \<times> pyval) list \<Rightarrow> error + pyval" where
  "Array_from_json d =
     (case py_get d ''n'' of Inl e \<Rightarrow> Inl e | Inr n \<Rightarrow>
     (case py_get d ''s'' of Inl e \<Rightarrow> Inl e | Inr s \<Rightarrow>
     (case py_get d ''t'' of Inl e \<Rightarrow> Inl e | Inr t \<Rightarrow>
     (case as_int n of Inl e \<Rightarrow> Inl e | Inr nelements \<Rightarrow>
     (case as_int s of Inl e \<Rightarrow> Inl e | Inr element_size \<Rightarrow>
     (case as_str t of Inl e \<Rightarrow> Inl e | Inr element_type \<Rightarrow>
        Inr (PObj (OTypeInfo (Array nelements element_size element_type)))))))))"

definition Pointer_from_json :: "(string \<times> pyval) list \<Rightarrow> error + pyval" where
  "Pointer_from_json d =
     (case py_get d ''t'' of Inl e \<Rightarrow> Inl e | Inr t \<Rightarrow>
     (case as_str t of Inl e \<Rightarrow> Inl e | Inr target_type_name \<Rightarrow>
        Inr (PObj (OTypeInfo (Pointer target_type_name)))))"

definition Field_from_json :: "(string \<times> pyval) list \<Rightarrow> error + pyval" where
  "Field_from_json d =
     (case py_get d ''n'' of Inl e \<Rightarrow> Inl e | Inr n \<Rightarrow>
     (case py_get d ''t'' of Inl e \<Rightarrow> Inl e | Inr t \<Rightarrow>
     (case py_get d ''s'' of Inl e \<Rightarrow> Inl e | Inr s \<Rightarrow>
     (case as_str n of Inl e \<Rightarrow> Inl e | Inr name \<Rightarrow>
     (case as_str t of Inl e \<Rightarrow> Inl e | Inr type_name \<Rightarrow>
     (case as_int s of Inl e \<Rightarrow> Inl e | Inr sz \<Rightarrow>
        Inr (PObj (OMember (Field_m name sz type_name)))))))))"

definition Padding_from_json :: "(string \<times> pyval) list \<Rightarrow> error + pyval" where
  "Padding_from_json d =
     (case py_get d ''s'' of Inl e \<Rightarrow> Inl e | Inr s \<Rightarrow>
     (case as_int s of Inl e \<Rightarrow> Inl e | Inr sz \<Rightarrow>
        Inr (PObj (OMember (Padding sz)))))"

definition Struct_from_json :: "(string \<times> pyval) list \<Rightarrow> error + pyval" where
  "Struct_from_json d =
     (case py_get d ''n'' of Inl e \<Rightarrow> Inl e | Inr n \<Rightarrow>
     (case py_get d ''l'' of Inl e \<Rightarrow> Inl e | Inr l \<Rightarrow>
     (case as_layout l of Inl e \<Rightarrow> Inl e | Inr layout \<Rightarrow>
     (case as_opt_str n of Inl e \<Rightarrow> Inl e | Inr name \<Rightarrow>
        Inr (PObj (OTypeInfo (Struct name layout)))))))"

definition Union_from_json :: "(string \<times> pyval) list \<Rightarrow> error + pyval" where
  "Union_from_json d =
     (case py_get d ''n'' of Inl e \<Rightarrow> Inl e | Inr n \<Rightarrow>
     (case py_get d ''m'' of Inl e \<Rightarrow> Inl e | Inr m \<Rightarrow>
     (case py_get d ''p'' of Inl e \<Rightarrow> Inl e | Inr p \<Rightarrow>
     (case as_layout m of Inl e \<Rightarrow> Inl e | Inr members \<Rightarrow>
     (case as_padding p of Inl e \<Rightarrow> Inl e | Inr padding \<Rightarrow>
     (case as_opt_str n of Inl e \<Rightarrow> Inl e | Inr name \<Rightarrow>
        Inr (PObj (OTypeInfo (Union_t name members padding)))))))))"

definition FunctionPointer_from_json :: "(string \<times> pyval) list \<Rightarrow> error + pyval" where
  "FunctionPointer_from_json d =
     (case py_get d ''n'' of Inl e \<Rightarrow> Inl e | Inr n \<Rightarrow>
     (case as_str n of Inl e \<Rightarrow> Inl e | Inr name \<Rightarrow>
        Inr (PObj (OTypeInfo (FunctionPointer name)))))"

text \<open>
  \<open>TypeLibABC._from_json\<close>: every key but \<open>"T"\<close> is a size, its value a list of
  \<open>(frequency, typeinfo)\<close> pairs.  A pair of another length fails to unpack
  (\<open>ValueError\<close>); values of other shapes than the encoder's are \<open>Untyped\<close>.
\<close>

fun as_entry :: "pyval \<Rightarrow> error + entry" where
  "as_entry (PList [PInt f, PObj (OTypeInfo ti)]) = Inr (Entry f ti)"
| "as_entry (PList [a, b]) = Inl Untyped"
| "as_entry (PList vs) = Inl ValueError"
| "as_entry v = Inl Untyped"

fun as_entries :: "pyval list \<Rightarrow> error + entry list" where
  "as_entries [] = Inr []"
| "as_entries (v # vs) =
     (case as_entry v of
        Inl e \<Rightarrow> Inl e
      | Inr x \<Rightarrow> (case as_entries vs of Inl e \<Rightarrow> Inl e | Inr xs \<Rightarrow> Inr (x # xs)))"

fun as_entry_list :: "pyval \<Rightarrow> error + entry list" where
  "as_entry_list (PList vs) = as_entries vs"
| "as_entry_list v = Inl Untyped"

fun typelib_items ::
  "(int \<times> entrylist) list \<Rightarrow> (string \<times> pyval) list \<Rightarrow> error + (int \<times> entrylist) list" where
  "typelib_items acc [] = Inr acc"
| "typelib_items acc ((key, lib_entry) # rest) =
     (if key = ''T'' then typelib_items acc rest
      else (case as_entry_list lib_entry of
              Inl e \<Rightarrow> Inl e
            | Inr entry_list \<Rightarrow>
                (case int_of_str key of
                   Inl e \<Rightarrow> Inl e
                 | Inr k \<Rightarrow> typelib_items (dict_set acc k (EntryList entry_list)) rest)))"

definition TypeLib_from_json :: "(string \<times> pyval) list \<Rightarrow> error + pyval" where
  "TypeLib_from_json d =
     (case typelib_items [] d of
        Inl e \<Rightarrow> Inl e
      | Inr items \<Rightarrow>
          Inr (PObj (OTypeLib \<lparr>data = items, cached_replacement_dict = None\<rparr>)))"

text \<open>
  \<open>read_metadata\<close>: \<open>cls._classes[d["T"]]._from_json(d)\<close> with the table
  \<open>"E": EntryList, 0: TypelessTypeLib, 1: TypeInfo, 2: Array, 3: Pointer, 4: Field,
  5: Padding, 6: Struct, 7: Union, 8: Void, 9: FunctionPointer, 10: Disappear\<close>.
  \<open>EntryList\<close> has no \<open>_from_json\<close> (\<open>AttributeError\<close>); a list is unhashable
  (\<open>TypeError\<close>); any other tag is a \<open>KeyError\<close>.
\<close>

definition read_metadata :: "(string \<times> pyval) list \<Rightarrow> error + pyval" where
  "read_metadata d =
     (case py_get d ''T'' of
        Inl e \<Rightarrow> Inl e
      | Inr (PInt tag) \<Rightarrow>
          (if tag = 0 then TypeLib_from_json d
           else if tag = 1 then TypeInfo_from_json d
           else if tag = 2 then Array_from_json d
           else if tag = 3 then Pointer_from_json d
           else if tag = 4 then Field_from_json d
           else if tag = 5 then Padding_from_json d
           else if tag = 6 then Struct_from_json d
           else if tag = 7 then Union_from_json d
           else if tag = 8 then Inr (PObj (OTypeInfo Void))
           else if tag = 9 then FunctionPointer_from_json d
           else if tag = 10 then Inr (PObj (OTypeInfo Disappear))
           else Inl KeyError)
      | Inr (PStr tag) \<Rightarrow> (if tag = ''E'' then Inl AttributeError else Inl KeyError)
      | Inr (PList tag) \<Rightarrow> Inl TypeError
      | Inr other \<Rightarrow> Inl KeyError)"

text \<open>
  \<open>decode\<close>: the values of an object are decoded first, then the hook is called on the
  object (bottom-up, as \<open>json.loads\<close> does).
\<close>

fun decode :: "json \<Rightarrow> error + pyval"
  and decode_list :: "json list \<Rightarrow> error + pyval list"
  and decode_items :: "(string \<times> json) list \<Rightarrow> error + (string \<times> pyval) list" where
  "decode JNull = Inr PNone"
| "decode (JInt i) = Inr (PInt i)"
| "decode (JStr s) = Inr (PStr s)"
| "decode (JList js) =
     (case decode_list js of Inl e \<Rightarrow> Inl e | Inr vs \<Rightarrow> Inr (PList vs))"
| "decode (JObj kvs) =
     (case decode_items kvs of Inl e \<Rightarrow> Inl e | Inr d \<Rightarrow> read_metadata d)"
| "decode_list [] = Inr []"
| "decode_list (j # js) =
     (case decode j of
        Inl e \<Rightarrow> Inl e
      | Inr v \<Rightarrow> (case decode_list js of Inl e \<Rightarrow> Inl e | Inr vs \<Rightarrow> Inr (v # vs)))"
| "decode_items [] = Inr []"
| "decode_items ((k, j) # kvs) =
     (case decode j of
        Inl e \<Rightarrow> Inl e
      | Inr v \<Rightarrow>
          (case decode_items kvs of Inl e \<Rightarrow> Inl e | Inr d \<Rightarrow> Inr ((k, v) # d)))"

text \<open>\<open>decode(encode(x))\<close>.\<close>

definition round_trip :: "codec_obj \<Rightarrow> error + pyval" where
  "round_trip x = (case encode x of Inl e \<Rightarrow> Inl e | Inr j \<Rightarrow> decode j)"

text \<open>
  What decoding makes of an encoded type: every union in it, at any depth, has become
  \<open>Void\<close>.
\<close>

fun unions_voided :: "typeinfo \<Rightarrow> typeinfo" and unions_voided_lay :: "lay \<Rightarrow> lay" where
  "unions_voided (Struct name layout) = Struct name (map unions_voided_lay layout)"
| "unions_voided (Union_t name members padding) = Void"
| "unions_voided (TypeInfo name sz) = TypeInfo name sz"
| "unions_voided (Array nelements element_size element_type) =
     Array nelements element_size element_type"
| "unions_voided (Pointer target_type_name) = Pointer target_type_name"
| "unions_voided Void = Void"
| "unions_voided Disappear = Disappear"
| "unions_voided (FunctionPointer name) = FunctionPointer name"
| "unions_voided_lay (Mem m) = Mem m"
| "unions_voided_lay (Typ t) = Typ (unions_voided t)"

fun union_free :: "typeinfo \<Rightarrow> bool" and union_free_lay :: "lay \<Rightarrow> bool" where
  "union_free (Struct name layout) = list_all union_free_lay layout"
| "union_free (Union_t name members padding) = False"
| "union_free (TypeInfo name sz) = True"
| "union_free (Array nelements element_size element_type) = True"
| "union_free (Pointer target_type_name) = True"
| "union_free Void = True"
| "union_free Disappear = True"
| "union_free (FunctionPointer name) = True"
| "union_free_lay (Mem m) = True"
| "union_free_lay (Typ t) = union_free t"

text \<open>A layout element as the decoder's value.\<close>

fun lay_obj :: "lay \<Rightarrow> pyval" where
  "lay_obj (Mem m) = PObj (OMember m)"
| "lay_obj (Typ t) = PObj (OTypeInfo t)"

section \<open>Predicates of the statements\<close>

text \<open>
  The invariant of an entry list: no two entries with equal (\<open>__eq__\<close>) types, and
  ascending frequencies.
\<close>

fun el_distinct :: "entry list \<Rightarrow> bool" where
  "el_distinct [] = True"
| "el_distinct (e # es) =
     (\<not> list_ex (\<lambda>x. ti_eq (typeinfo e) (typeinfo x)) es \<and> el_distinct es)"

definition el_wf :: "entry list \<Rightarrow> bool" where
  "el_wf el = (el_distinct el \<and> sorted (map frequency el))"





section \<open>Properties of the offset algebra\<close>

subsection \<open>The accumulating walks\<close>

lemma displace_zero: "displace 0 offsets = offsets"
  by (simp add: displace_def)

lemma struct_accessible_acc:
  "struct_accessible acc cur ms = acc @ struct_accessible [] cur ms"
proof (induction ms arbitrary: acc cur)
  case Nil
  show ?case by simp
next
  case (Cons m ms)
  show ?case
    using Cons.IH [of "acc @ py_range cur (cur + lay_size m)" "cur + lay_size m"]
      Cons.IH [of "py_range cur (cur + lay_size m)" "cur + lay_size m"]
      Cons.IH [of acc "cur + lay_size m"]
    by (simp add: Let_def)
qed

lemma struct_inaccessible_acc:
  "struct_inaccessible acc cur ms = acc @ struct_inaccessible [] cur ms"
proof (induction ms arbitrary: acc cur)
  case Nil
  show ?case by simp
next
  case (Cons m ms)
  show ?case
    using Cons.IH [of "acc @ py_range cur (cur + lay_size m)" "cur + lay_size m"]
      Cons.IH [of "py_range cur (cur + lay_size m)" "cur + lay_size m"]
      Cons.IH [of acc "cur + lay_size m"]
    by (simp add: Let_def)
qed

lemma py_range_split:
  "0 \<le> a \<Longrightarrow> 0 \<le> b \<Longrightarrow>
   py_range c (c + a + b) = py_range c (c + a) @ py_range (c + a) (c + a + b)"
  unfolding py_range_def
  using upto_split2 [of c "c + a - 1" "c + a + b - 1"]
  by (cases "a = 0") simp_all

lemma sum_flat_nonneg: "list_all flat_member ms \<Longrightarrow> 0 \<le> sum_list (map lay_size ms)"
proof (induction ms)
  case Nil
  show ?case by simp
next
  case (Cons m ms)
  then show ?case by (cases m) auto
qed

text \<open>
  In a struct of fields and padding only, the bytes of the fields and the bytes of the
  padding together are the bytes of the struct, each once.
\<close>

lemma flat_struct_cover:
  "list_all flat_member ms \<Longrightarrow>
   mset (struct_accessible [] cur ms) + mset (struct_inaccessible [] cur ms)
   = mset (py_range cur (cur + sum_list (map lay_size ms)))"
proof (induction ms arbitrary: cur)
  case Nil
  show ?case by (simp add: py_range_def)
next
  case (Cons m ms)
  from Cons.prems have flat: "list_all flat_member ms" and m0: "0 \<le> lay_size m"
    by (cases m; simp)+
  have rest0: "0 \<le> sum_list (map lay_size ms)"
    using flat by (rule sum_flat_nonneg)
  have split: "py_range cur (cur + lay_size m + sum_list (map lay_size ms))
      = py_range cur (cur + lay_size m)
        @ py_range (cur + lay_size m) (cur + lay_size m + sum_list (map lay_size ms))"
    using m0 rest0 by (rule py_range_split)
  have IH: "mset (struct_accessible [] (cur + lay_size m) ms)
      + mset (struct_inaccessible [] (cur + lay_size m) ms)
      = mset (py_range (cur + lay_size m) (cur + lay_size m + sum_list (map lay_size ms)))"
    using Cons.IH [OF flat] .
  from Cons.prems obtain mm where mm: "m = Mem mm" by (cases m) auto
  show ?case
  proof (cases mm)
    case (Field_m name sz type_name)
    have "struct_accessible [] cur (m # ms)
        = py_range cur (cur + lay_size m) @ struct_accessible [] (cur + lay_size m) ms"
      using struct_accessible_acc [of "py_range cur (cur + lay_size m)"]
      by (simp add: mm Field_m Let_def)
    moreover have "struct_inaccessible [] cur (m # ms)
        = struct_inaccessible [] (cur + lay_size m) ms"
      by (simp add: mm Field_m Let_def)
    ultimately show ?thesis
      using IH split by (simp add: add.assoc)
  next
    case (Padding sz)
    have "struct_inaccessible [] cur (m # ms)
        = py_range cur (cur + lay_size m) @ struct_inaccessible [] (cur + lay_size m) ms"
      using struct_inaccessible_acc [of "py_range cur (cur + lay_size m)"]
      by (simp add: mm Padding Let_def)
    moreover have "struct_accessible [] cur (m # ms)
        = struct_accessible [] (cur + lay_size m) ms"
      by (simp add: mm Padding Let_def)
    ultimately show ?thesis
      using IH split by (simp add: add.assoc)
  qed
qed

lemma no_padding_inaccessible:
  "\<not> list_ex is_Padding ms \<Longrightarrow> struct_inaccessible [] cur ms = []"
  by (induction ms arbitrary: cur) (auto simp: Let_def)

lemma flat_struct_offsets:
  assumes "list_all flat_member layout"
    and "accessible_offsets (Struct name layout) = Inr a"
    and "inaccessible_offsets (Struct name layout) = Inr i"
  shows "mset (a @ i) = mset (py_range 0 (ti_size (Struct name layout)))"
    and "set a \<inter> set i = {}"
proof -
  have a: "a = struct_accessible [] 0 layout" using assms(2) by simp
  have i: "i = struct_inaccessible [] 0 layout"
    using assms(3) no_padding_inaccessible [of layout 0]
    by (auto simp: has_padding_struct_def split: if_splits)
  show cover: "mset (a @ i) = mset (py_range 0 (ti_size (Struct name layout)))"
    using flat_struct_cover [OF assms(1), of 0] by (simp add: a i)
  have "distinct (py_range 0 (ti_size (Struct name layout)))"
    by (simp add: py_range_def)
  then have "distinct (a @ i)"
    using cover by (metis mset_eq_imp_distinct_iff)
  then show "set a \<inter> set i = {}" by simp
qed

text \<open>
  The variants without layout: all bytes are accessible.  A union with a member: the
  bytes below the largest member size are accessible, the padding bytes follow.
\<close>

lemma simple_offsets:
  assumes "\<And>name layout. t \<noteq> Struct name layout"
    and "\<And>name members padding. t \<noteq> Union_t name members padding"
  shows "accessible_offsets t = Inr (py_range 0 (ti_size t))"
    and "inaccessible_offsets t = Inr []"
  using assms by (cases t; simp)+

lemma union_offsets:
  assumes "py_max (map lay_size members) = Inr m" and "0 \<le> m"
    and "0 \<le> (case padding of None \<Rightarrow> 0 | Some p \<Rightarrow> member_size p)"
  shows "\<exists>a i. accessible_offsets (Union_t name members padding) = Inr a
           \<and> inaccessible_offsets (Union_t name members padding) = Inr i
           \<and> a @ i = py_range 0 (ti_size (Union_t name members padding))"
proof (cases padding)
  case None
  with assms(1) show ?thesis by simp
next
  case (Some p)
  with assms have "0 \<le> member_size p" by simp
  then have "py_range 0 m @ py_range m (m + member_size p) = py_range 0 (m + member_size p)"
    using py_range_split [of m "member_size p" 0] assms(2) by simp
  with assms(1) Some show ?thesis by simp
qed

subsection \<open>Claims about the offset algebra\<close>

text \<open>
  C1.  \<open>replacable_with\<close> is claimed to displace each of \<open>others\<close> by the total size of the
  types before it, so that a struct of two consecutive 4-byte fields is replaceable by a
  pair of 4-byte scalars.  The loop never advances \<open>cur_offset\<close>: the second scalar's
  start offset stays 0, the struct's start offset 4 is not among the collected starts, and
  the call returns \<open>False\<close>, for every choice of names.
\<close>

theorem replacable_with_two_scalars_false:
  "replacable_with (Struct n [Mem (Field_m a 4 ta), Mem (Field_m b 4 tb)])
     [TypeInfo x 4, TypeInfo y 4] = Inr False"
  by (simp add: replacable_with_base_def self_matches_def displace_def py_range_def)

text \<open>The other half of the example holds: one 8-byte scalar does not replace it.\<close>

lemma replacable_with_one_scalar_false:
  "replacable_with (Struct n [Mem (Field_m a 4 ta), Mem (Field_m b 4 tb)])
     [TypeInfo x 8] = Inr False"
  by (simp add: replacable_with_base_def self_matches_def displace_def py_range_def)

text \<open>
  C3.  Accessible and inaccessible offsets are claimed to partition \<open>[0, size)\<close> for every
  value, structs with nested struct or union members included.  A struct whose only layout
  element is a struct with one 4-byte field has size 4 and no accessible and no
  inaccessible offset: the walks classify \<open>Field\<close> and \<open>Padding\<close> elements only.
\<close>

theorem nested_struct_offsets_uncovered:
  "accessible_offsets (Struct n [Typ (Struct m [Mem (Field_m a 4 t)])]) = Inr []
   \<and> inaccessible_offsets (Struct n [Typ (Struct m [Mem (Field_m a 4 t)])]) = Inr []
   \<and> ti_size (Struct n [Typ (Struct m [Mem (Field_m a 4 t)])]) = 4"
  by (simp add: has_padding_struct_def)

text \<open>
  C10.  A union without members is constructible, with size 0 plus the padding size; its
  \<open>accessible_offsets\<close> raises \<open>ValueError\<close> (the maximum of an empty sequence), and so
  does its \<open>inaccessible_offsets\<close> when a padding is present.
\<close>

theorem memberless_union_offsets_raise:
  "ti_size (Union_t n [] None) = 0
   \<and> ti_size (Union_t n [] (Some p)) = member_size p
   \<and> accessible_offsets (Union_t n [] pad) = Inl ValueError
   \<and> inaccessible_offsets (Union_t n [] (Some p)) = Inl ValueError"
  by simp

subsection \<open>Python equality is an equivalence relation\<close>

lemma member_eq_refl: "member_eq m m"
  by (cases m) simp_all

lemma member_eq_sym: "member_eq m m' \<Longrightarrow> member_eq m' m"
  by (cases m; cases m') simp_all

lemma member_eq_trans: "member_eq m m' \<Longrightarrow> member_eq m' m'' \<Longrightarrow> member_eq m m''"
  by (cases m; cases m'; cases m'') simp_all

lemma padding_eq_refl: "padding_eq p p"
  by (cases p) (simp_all add: member_eq_refl)

lemma padding_eq_sym: "padding_eq p p' \<Longrightarrow> padding_eq p' p"
  by (cases p; cases p') (simp_all add: member_eq_sym)

lemma padding_eq_trans: "padding_eq p p' \<Longrightarrow> padding_eq p' p'' \<Longrightarrow> padding_eq p p''"
  by (cases p; cases p'; cases p'') (auto intro: member_eq_trans)

lemma layout_eq_refl: "(\<And>l. l \<in> set ls \<Longrightarrow> lay_eq l l) \<Longrightarrow> layout_eq ls ls"
  by (induction ls) simp_all

lemma layout_eq_sym:
  "(\<And>l l'. l \<in> set ls \<Longrightarrow> lay_eq l l' \<Longrightarrow> lay_eq l' l) \<Longrightarrow>
   layout_eq ls ls' \<Longrightarrow> layout_eq ls' ls"
proof (induction ls arbitrary: ls')
  case Nil
  then show ?case by simp
next
  case (Cons l ls)
  then show ?case by (cases ls') auto
qed

lemma layout_eq_trans:
  "(\<And>l l' l''. l \<in> set ls \<Longrightarrow> lay_eq l l' \<Longrightarrow> lay_eq l' l'' \<Longrightarrow> lay_eq l l'') \<Longrightarrow>
   layout_eq ls ls' \<Longrightarrow> layout_eq ls' ls'' \<Longrightarrow> layout_eq ls ls''"
proof (induction ls arbitrary: ls' ls'')
  case Nil
  then show ?case by simp
next
  case (Cons l ls)
  from Cons.prems(2) obtain l' ms' where ls': "ls' = l' # ms'"
    and h1: "lay_eq l l'" "layout_eq ls ms'"
    by (cases ls') auto
  from Cons.prems(3) ls' obtain l'' ms'' where ls'': "ls'' = l'' # ms''"
    and h2: "lay_eq l' l''" "layout_eq ms' ms''"
    by (cases ls'') auto
  have "lay_eq l l''" using Cons.prems(1) [of l l' l''] h1(1) h2(1) by simp
  moreover have "layout_eq ls ms''"
    using Cons.IH [of ms' ms''] Cons.prems(1) h1(2) h2(2) by auto
  ultimately show ?case by (simp add: ls'')
qed


lemma ti_eq_simple:
  "ti_eq t t' \<Longrightarrow> t' = t \<or> (\<exists>n l. t = Struct n l) \<or> (\<exists>n m p. t = Union_t n m p)"
  by (cases t; cases t'; simp)

lemma ti_eq_refl: "ti_eq t t" and lay_eq_refl: "lay_eq l l"
proof (induction t and l)
  case (Struct name layout)
  then show ?case by (simp add: layout_eq_refl)
next
  case (Union_t name members padding)
  then show ?case by (simp add: layout_eq_refl padding_eq_refl)
next
  case (Mem m)
  show ?case by (simp add: member_eq_refl)
qed simp_all

lemma ti_eq_sym: "ti_eq t t' \<Longrightarrow> ti_eq t' t"
  and lay_eq_sym: "lay_eq l l' \<Longrightarrow> lay_eq l' l"
proof (induction t and l arbitrary: t' and l')
  case (Struct name layout)
  from Struct.prems obtain layout' where t': "t' = Struct name layout'"
    and le: "layout_eq layout layout'"
    by (cases t') auto
  have "layout_eq layout' layout"
    using Struct.IH le by (rule layout_eq_sym)
  then show ?case by (simp add: t')
next
  case (Union_t name members padding)
  from Union_t.prems obtain members' padding' where t': "t' = Union_t name members' padding'"
    and le: "layout_eq members members'" and pe: "padding_eq padding padding'"
    by (cases t') auto
  have "layout_eq members' members"
    using Union_t.IH le by (rule layout_eq_sym)
  then show ?case using pe by (simp add: t' padding_eq_sym)
next
  case (Mem m)
  then show ?case by (cases l') (simp_all add: member_eq_sym)
next
  case (Typ t)
  then show ?case by (cases l') simp_all
qed (auto split: typeinfo.splits)

lemma ti_eq_trans: "ti_eq t t' \<Longrightarrow> ti_eq t' t'' \<Longrightarrow> ti_eq t t''"
  and lay_eq_trans: "lay_eq l l' \<Longrightarrow> lay_eq l' l'' \<Longrightarrow> lay_eq l l''"
proof (induction t and l arbitrary: t' t'' and l' l'')
  case (Struct name layout)
  from Struct.prems(1) obtain layout' where t': "t' = Struct name layout'"
    and le: "layout_eq layout layout'"
    by (cases t') auto
  from Struct.prems(2) t' obtain layout'' where t'': "t'' = Struct name layout''"
    and le': "layout_eq layout' layout''"
    by (cases t'') auto
  have "layout_eq layout layout''"
    using Struct.IH le le' by (rule layout_eq_trans)
  then show ?case by (simp add: t'')
next
  case (Union_t name members padding)
  from Union_t.prems(1) obtain members' padding' where t': "t' = Union_t name members' padding'"
    and le: "layout_eq members members'" and pe: "padding_eq padding padding'"
    by (cases t') auto
  from Union_t.prems(2) t' obtain members'' padding''
    where t'': "t'' = Union_t name members'' padding''"
    and le': "layout_eq members' members''" and pe': "padding_eq padding' padding''"
    by (cases t'') auto
  have "layout_eq members members''"
    using Union_t.IH le le' by (rule layout_eq_trans)
  moreover have "padding_eq padding padding''"
    using pe pe' by (rule padding_eq_trans)
  ultimately show ?case by (simp add: t'')
next
  case (Mem m)
  then show ?case by (cases l'; cases l'') (auto intro: member_eq_trans)
next
  case (Typ t)
  then show ?case by (cases l'; cases l'') auto
qed (auto split: typeinfo.splits)

section \<open>Properties of EntryList\<close>

lemma EntryList_empty: "EntryList [] = []"
  by (simp add: EntryList_def initialize_data_def)

lemma sorted_add_set: "set (sorted_add e xs) = insert e (set xs)"
  by (induction xs) auto


lemma el_get_Some: "el_get el item = Some e \<Longrightarrow> ti_eq (typeinfo e) item \<and> e \<in> set el"
  unfolding el_get_def by (induction el) (auto split: if_splits)


lemma remove_scan_keeps:
  "remove_scan xs key val = Inr ys \<Longrightarrow> x \<in> set xs \<Longrightarrow> \<not> ti_eq (typeinfo x) val \<Longrightarrow>
   x \<in> set ys"
proof (induction xs arbitrary: ys)
  case Nil
  then show ?case by simp
next
  case (Cons a xs)
  then show ?case by (auto split: if_splits sum.splits)
qed


lemma list_remove_keeps:
  assumes "list_remove el key val = Inr el'" and "x \<in> set el" and "\<not> ti_eq (typeinfo x) val"
  shows "x \<in> set el'"
proof -
  let ?P = "\<lambda>x. frequency x < frequency key"
  from assms(1) obtain rest where r: "remove_scan (dropWhile ?P el) key val = Inr rest"
    and el': "el' = takeWhile ?P el @ rest"
    by (auto simp: list_remove_def split: sum.splits)
  have "set (takeWhile ?P el) \<union> set (dropWhile ?P el) = set el"
    by (metis set_append takeWhile_dropWhile_id)
  with assms(2) have "x \<in> set (takeWhile ?P el) \<or> x \<in> set (dropWhile ?P el)" by auto
  then show ?thesis
    using remove_scan_keeps [OF r _ assms(3)] unfolding el' by auto
qed




text \<open>The result of \<open>add_n\<close> is never \<open>False\<close>.\<close>

lemma add_n_result: "fst (add_n el item n) \<noteq> Inr False"
  by (simp add: add_n_def Let_def split: prod.splits option.splits)


text \<open>
  An item that is present, with another entry of the same frequency before it: the
  assignment raises \<open>ValueError\<close> and the list stays as it was.
\<close>

lemma add_n_tie_raises:
  "\<not> ti_eq a b \<Longrightarrow>
   add_n [Entry f a, Entry f b] b n = (Inl ValueError, [Entry f a, Entry f b])"
  by (simp add: add_n_def el_get_def el_set_def list_remove_def inc_def ti_eq_refl)

lemma add_n_first_of_tie:
  "\<not> ti_eq a b \<Longrightarrow>
   add_n [Entry f a, Entry f b] a 1 = (Inr True, [Entry f b, Entry (f + 1) a])"
  by (simp add: add_n_def el_get_def el_set_def list_remove_def inc_def ti_eq_refl)

text \<open>
  Lists without two equal (\<open>__eq__\<close>) keys, as the dictionary of an \<open>EntryList\<close> is.
\<close>

lemma el_distinct_append:
  "el_distinct (xs @ ys) \<longleftrightarrow>
   el_distinct xs \<and> el_distinct ys
   \<and> \<not> list_ex (\<lambda>x. list_ex (\<lambda>y. ti_eq (typeinfo x) (typeinfo y)) ys) xs"
  by (induction xs) (auto simp: list_ex_iff)

lemma el_distinct_filter: "el_distinct el \<Longrightarrow> el_distinct (filter P el)"
  by (induction el) (auto simp: list_ex_iff)


lemma remove_scan_decomp:
  "remove_scan xs key val = Inr ys \<Longrightarrow>
   \<exists>as b bs. xs = as @ b # bs \<and> ys = as @ bs \<and> ti_eq (typeinfo b) val"
proof (induction xs arbitrary: ys)
  case Nil
  then show ?case by simp
next
  case (Cons x xs)
  show ?case
  proof (cases "ti_eq (typeinfo x) val")
    case True
    with Cons.prems have "ys = xs" by (simp split: if_splits)
    with True have "x # xs = [] @ x # xs \<and> ys = [] @ xs \<and> ti_eq (typeinfo x) val" by simp
    then show ?thesis by blast
  next
    case False
    with Cons.prems obtain rest where r: "remove_scan xs key val = Inr rest" "ys = x # rest"
      by (auto split: if_splits sum.splits)
    from Cons.IH [OF r(1)] obtain as b bs
      where "xs = as @ b # bs" "rest = as @ bs" "ti_eq (typeinfo b) val" by blast
    with r(2) have "x # xs = (x # as) @ b # bs \<and> ys = (x # as) @ bs \<and> ti_eq (typeinfo b) val"
      by simp
    then show ?thesis by blast
  qed
qed

lemma list_remove_decomp:
  assumes "list_remove el key val = Inr el'"
  shows "\<exists>as b bs. el = as @ b # bs \<and> el' = as @ bs \<and> ti_eq (typeinfo b) val"
proof -
  let ?P = "\<lambda>x. frequency x < frequency key"
  from assms obtain rest where r: "remove_scan (dropWhile ?P el) key val = Inr rest"
    and el': "el' = takeWhile ?P el @ rest"
    by (auto simp: list_remove_def split: sum.splits)
  from remove_scan_decomp [OF r] obtain as b bs
    where d: "dropWhile ?P el = as @ b # bs" "rest = as @ bs" "ti_eq (typeinfo b) val"
    by blast
  have "el = takeWhile ?P el @ dropWhile ?P el" by simp
  then have "el = (takeWhile ?P el @ as) @ b # bs" using d(1) by simp
  moreover have "el' = (takeWhile ?P el @ as) @ bs" using el' d(2) by simp
  ultimately show ?thesis using d(3) by blast
qed

lemma find_sorted_add:
  "P e \<Longrightarrow> \<not> list_ex P xs \<Longrightarrow> find P (sorted_add e xs) = Some e"
  by (induction xs) auto

lemma el_get_sorted_add:
  "ti_eq (typeinfo e) item \<Longrightarrow> \<not> list_ex (\<lambda>x. ti_eq (typeinfo x) item) rest \<Longrightarrow>
   el_get (sorted_add e rest) item = Some e"
  unfolding el_get_def by (rule find_sorted_add)

lemma find_skip: "\<forall>x \<in> set as. \<not> P x \<Longrightarrow> find P (as @ ys) = find P ys"
  by (induction as) auto

lemma sorted_add_sorted:
  "sorted (map frequency xs) \<Longrightarrow> sorted (map frequency (sorted_add e xs))"
  by (induction xs) (auto simp: sorted_add_set)

lemma sorted_add_distinct:
  "el_distinct xs \<Longrightarrow> \<not> list_ex (\<lambda>x. ti_eq (typeinfo e) (typeinfo x)) xs \<Longrightarrow>
   \<not> list_ex (\<lambda>x. ti_eq (typeinfo x) (typeinfo e)) xs \<Longrightarrow> el_distinct (sorted_add e xs)"
  by (induction xs) (auto simp: list_ex_iff sorted_add_set)

text \<open>
  When the assignment of \<open>add_n\<close> does not raise, on a list without two equal keys: the
  list afterwards is the list without the entry of the item, with the new entry added.
\<close>

lemma add_n_returns:
  assumes "fst (add_n el item n) = Inr r" and "el_distinct el"
  shows "\<exists>rest. snd (add_n el item n)
            = sorted_add (inc (case el_get el item of None \<Rightarrow> Entry 0 item | Some e \<Rightarrow> e) n) rest
         \<and> \<not> list_ex (\<lambda>x. ti_eq (typeinfo x) item) rest
         \<and> el_distinct rest
         \<and> (sorted (map frequency el) \<longrightarrow> sorted (map frequency rest))"
proof (cases "el_get el item")
  case None
  then have "\<not> list_ex (\<lambda>x. ti_eq (typeinfo x) item) el"
    by (simp add: el_get_def find_None_iff list_ex_iff)
  with None assms(2) show ?thesis
    by (auto simp: add_n_def el_set_def Let_def)
next
  case (Some old)
  with assms(1) obtain el' where rm: "list_remove el old item = Inr el'"
    by (auto simp: add_n_def el_set_def Let_def split: sum.splits)
  from list_remove_decomp [OF rm] obtain as b bs
    where d: "el = as @ b # bs" "el' = as @ bs" "ti_eq (typeinfo b) item" by blast
  have dist: "el_distinct (as @ b # bs)" using assms(2) d(1) by simp
  have no: "\<not> list_ex (\<lambda>x. ti_eq (typeinfo x) item) el'"
  proof
    assume "list_ex (\<lambda>x. ti_eq (typeinfo x) item) el'"
    then obtain x where x: "x \<in> set as \<or> x \<in> set bs" "ti_eq (typeinfo x) item"
      by (auto simp: list_ex_iff d(2))
    have xb: "ti_eq (typeinfo x) (typeinfo b)" and bx: "ti_eq (typeinfo b) (typeinfo x)"
      using ti_eq_trans [OF x(2) ti_eq_sym [OF d(3)]] ti_eq_trans [OF d(3) ti_eq_sym [OF x(2)]]
      by simp_all
    from x(1) dist xb bx show False
      by (auto simp: el_distinct_append list_ex_iff)
  qed
  have dist': "el_distinct el'" using dist unfolding d(2)
    by (auto simp: el_distinct_append list_ex_iff)
  have srt: "sorted (map frequency el) \<longrightarrow> sorted (map frequency el')"
    unfolding d by (auto simp: sorted_append)
  have "snd (add_n el item n) = sorted_add (inc old n) el'"
    using Some rm by (simp add: add_n_def el_set_def Let_def)
  with Some no dist' srt show ?thesis by auto
qed

lemma add_n_frequency:
  assumes "fst (add_n el item n) = Inr r" and "el_distinct el"
  shows "el_get (snd (add_n el item n)) item
     = Some (inc (case el_get el item of None \<Rightarrow> Entry 0 item | Some e \<Rightarrow> e) n)"
proof -
  let ?old = "case el_get el item of None \<Rightarrow> Entry 0 item | Some e \<Rightarrow> e"
  have "ti_eq (typeinfo ?old) item"
    using el_get_Some [of el item] by (cases "el_get el item") (simp_all add: ti_eq_refl)
  then have new: "ti_eq (typeinfo (inc ?old n)) item" by (simp add: inc_def)
  from add_n_returns [OF assms] obtain rest
    where r: "snd (add_n el item n) = sorted_add (inc ?old n) rest"
      "\<not> list_ex (\<lambda>x. ti_eq (typeinfo x) item) rest"
    by blast
  show ?thesis
    unfolding r(1) using new r(2) by (rule el_get_sorted_add)
qed

lemma add_n_wf:
  assumes "fst (add_n el item n) = Inr r" and "el_wf el"
  shows "el_wf (snd (add_n el item n))"
proof -
  let ?old = "case el_get el item of None \<Rightarrow> Entry 0 item | Some e \<Rightarrow> e"
  have "ti_eq (typeinfo ?old) item"
    using el_get_Some [of el item] by (cases "el_get el item") (simp_all add: ti_eq_refl)
  then have new: "ti_eq (typeinfo (inc ?old n)) item" by (simp add: inc_def)
  from assms(2) have d: "el_distinct el" and s: "sorted (map frequency el)"
    by (simp_all add: el_wf_def)
  from add_n_returns [OF assms(1) d] s obtain rest
    where r: "snd (add_n el item n) = sorted_add (inc ?old n) rest"
      "\<not> list_ex (\<lambda>x. ti_eq (typeinfo x) item) rest" "el_distinct rest"
      "sorted (map frequency rest)"
    by blast
  have r1: "\<not> list_ex (\<lambda>x. ti_eq (typeinfo (inc ?old n)) (typeinfo x)) rest"
  proof
    assume "list_ex (\<lambda>x. ti_eq (typeinfo (inc ?old n)) (typeinfo x)) rest"
    then obtain x where x: "x \<in> set rest" "ti_eq (typeinfo (inc ?old n)) (typeinfo x)"
      by (auto simp: list_ex_iff)
    from ti_eq_trans [OF ti_eq_sym [OF x(2)] new] x(1) r(2) show False
      by (auto simp: list_ex_iff)
  qed
  have r2: "\<not> list_ex (\<lambda>x. ti_eq (typeinfo x) (typeinfo (inc ?old n))) rest"
  proof
    assume "list_ex (\<lambda>x. ti_eq (typeinfo x) (typeinfo (inc ?old n))) rest"
    then obtain x where x: "x \<in> set rest" "ti_eq (typeinfo x) (typeinfo (inc ?old n))"
      by (auto simp: list_ex_iff)
    from ti_eq_trans [OF x(2) new] x(1) r(2) show False
      by (auto simp: list_ex_iff)
  qed
  show ?thesis
    unfolding r(1) el_wf_def
    using sorted_add_distinct [OF r(3) r1 r2] sorted_add_sorted [OF r(4)] by simp
qed

text \<open>
  The assignment does not raise when the entry of the item is the first of its frequency
  (in particular when no other entry has that frequency).
\<close>

lemma add_n_first_of_frequency:
  assumes "el = as @ Entry f t # bs" and "ti_eq t item"
    and "\<forall>x \<in> set as. frequency x < f \<and> \<not> ti_eq (typeinfo x) item"
  shows "add_n el item n = (Inr True, sorted_add (Entry (f + n) t) (as @ bs))"
proof -
  let ?P = "\<lambda>x. frequency x < frequency (Entry f t)"
  have g: "el_get el item = Some (Entry f t)"
    using assms by (simp add: el_get_def find_skip)
  have tw: "takeWhile ?P el = as" "dropWhile ?P el = Entry f t # bs"
    using assms(1,3) by (simp_all add: takeWhile_append2 dropWhile_append2)
  have "list_remove el (Entry f t) item = Inr (as @ bs)"
    unfolding list_remove_def tw using assms(2) by (simp add: ti_eq_refl)
  with g show ?thesis by (simp add: add_n_def el_set_def Let_def inc_def)
qed

text \<open>
  On a list that satisfies the invariant (no two equal keys, ascending frequencies),
  \<open>EntryList.prune\<close> keeps exactly the entries of frequency at least \<open>freq\<close>, in their
  order.
\<close>

lemma fold_comprehension_put_distinct:
  "el_distinct (d @ xs) \<Longrightarrow> fold comprehension_put xs d = d @ xs"
proof (induction xs arbitrary: d)
  case Nil
  show ?case by simp
next
  case (Cons x xs)
  from Cons.prems have "\<not> list_ex (\<lambda>y. ti_eq (typeinfo y) (typeinfo x)) d"
    by (auto simp: el_distinct_append list_ex_iff)
  then have "comprehension_put x d = d @ [x]" by simp
  moreover have "el_distinct ((d @ [x]) @ xs)" using Cons.prems by simp
  ultimately show ?case using Cons.IH [of "d @ [x]"] by simp
qed

lemma el_prune_filter:
  assumes "el_wf el"
  shows "el_prune el k = filter (\<lambda>e. k \<le> frequency e) el"
proof -
  let ?kept = "filter (\<lambda>e. k \<le> frequency e) el"
  have "el_distinct ?kept" using assms by (simp add: el_wf_def el_distinct_filter)
  then have "fold comprehension_put ?kept [] = ?kept"
    using fold_comprehension_put_distinct [of "[]" ?kept] by simp
  moreover have "sorted (map frequency ?kept)"
    using assms by (simp add: el_wf_def sorted_filter)
  ultimately show ?thesis
    by (simp add: el_prune_def initialize_data_def sort_key_id_if_sorted)
qed

text \<open>
  C8.  \<open>add_n\<close> is claimed to return whether the item was present before the call.  On the
  empty list, where no item is present, it inserts the item with frequency \<open>n\<close> and
  returns \<open>True\<close>: the function ends with \<open>return True\<close> whatever it found.
\<close>

theorem add_n_absent_returns_true:
  "\<not> el_contains (EntryList []) item
   \<and> add_n (EntryList []) item n = (Inr True, [Entry n item])"
  by (simp add: EntryList_empty el_contains_def add_n_def el_get_def el_set_def inc_def)

text \<open>
  C9.  \<open>get_freq\<close> is claimed to return the stored frequency of a present item.  For a
  present item the code reads the attribute \<open>freqency\<close>, which \<open>Entry\<close> does not have, and
  raises \<open>AttributeError\<close>; for an absent item it returns \<open>None\<close>.
\<close>

theorem get_freq_present_raises:
  "get_freq [Entry f (TypeInfo name sz)] (TypeInfo name sz) = Inl AttributeError
   \<and> get_freq (snd (add_n (EntryList []) (TypeInfo name sz) n)) (TypeInfo name sz)
       = Inl AttributeError
   \<and> get_freq (EntryList []) item = Inr None"
  by (simp add: EntryList_empty get_freq_def el_contains_def add_n_def el_get_def
      el_set_def inc_def)

section \<open>Properties of TypeLib\<close>

subsection \<open>prune\<close>

text \<open>\<open>prune\<close> returns normally when it empties no bucket.\<close>

lemma prune_pop_loop_no_empty:
  "list_all (\<lambda>p. snd p \<noteq> []) xs \<Longrightarrow> prune_pop_loop xs d = (None, d)"
  by (induction xs) auto

lemma prune_returns_normally:
  assumes "list_all (\<lambda>p. el_prune (snd p) k \<noteq> []) (data self)"
  shows "prune self k = (None, self\<lparr>data := prune_buckets (data self) k\<rparr>)"
proof -
  have "list_all (\<lambda>p. snd p \<noteq> []) (prune_buckets (data self) k)"
    using assms by (simp add: prune_buckets_def list_all_iff)
  then show ?thesis
    by (simp add: prune_def prune_pop_loop_no_empty)
qed

text \<open>
  C7.  \<open>prune\<close> is claimed to remove every bucket left empty and to return normally.  In a
  library whose only bucket holds one entry of frequency 1, \<open>prune(2)\<close> empties the
  bucket, pops it while iterating over the dictionary, and ends with \<open>RuntimeError\<close>.
\<close>

theorem prune_emptied_bucket_raises:
  "prune \<lparr>data = [(k, [Entry 1 t])], cached_replacement_dict = c\<rparr> 2
   = (Some RuntimeError, \<lparr>data = [], cached_replacement_dict = c\<rparr>)"
  by (simp add: prune_def prune_buckets_def el_prune_def initialize_data_def dict_pop_def)

text \<open>With two buckets emptied, the exception leaves the second in the library.\<close>

lemma prune_second_empty_bucket_stays:
  "k \<noteq> k' \<Longrightarrow>
   prune \<lparr>data = [(k, [Entry 1 t]), (k', [Entry 1 t'])], cached_replacement_dict = c\<rparr> 2
   = (Some RuntimeError, \<lparr>data = [(k', [])], cached_replacement_dict = c\<rparr>)"
  by (simp add: prune_def prune_buckets_def el_prune_def initialize_data_def dict_pop_def)

subsection \<open>fix\_bit: bits to bytes\<close>













subsection \<open>fix: the stores into the new library\<close>











subsection \<open>fix: the two loops\<close>

















subsection \<open>fix: libraries evaluated\<close>

text \<open>
  A library holding one struct with fields of 32 and 8 bits, or one struct with a field of
  33 bits; a library holding a scalar, a convertible struct and a struct that is not
  convertible (its first field is converted in the source library before the conversion
  fails at the second).
\<close>

lemmas fix_eval = fix_lib_def fix_entry_def fix_bit_def new_lib_store_def new_typelib_def
      dict_contains_def add_entry_list_def lib_getitem_def EntryList_empty add_entry_def
      add_n_def el_get_def el_set_def list_remove_def inc_def Let_def

lemma fix_single_struct_library:
  "fix_lib \<lparr>data = [(k, [Entry f (Struct n [Mem (Field_m a 32 ta),
                                                Mem (Field_m b 8 tb)])])],
            cached_replacement_dict = c\<rparr>
   = ([(k, [Entry f (Struct n [Mem (Field_m a 4 ta), Mem (Field_m b 1 tb)])])],
      Inr \<lparr>data = [(5, [Entry f (Struct n [Mem (Field_m a 4 ta), Mem (Field_m b 1 tb)])])],
           cached_replacement_dict = None\<rparr>)"
  "fix_lib \<lparr>data = [(k, [Entry f (Struct n [Mem (Field_m a 33 ta)])])],
            cached_replacement_dict = c\<rparr>
   = ([(k, [Entry f (Struct n [Mem (Field_m a 33 ta)])])], Inr new_typelib)"
  by (simp_all add: fix_eval)


text \<open>
  A library on which \<open>fix\<close> raises.  The two structs are equal (\<open>__eq__\<close> does not
  compare field sizes) and both have size 16 after the conversion; bucket 16 of the new
  library then holds the scalar and the first struct with the same frequency, and storing
  the second struct removes the key of the first from the sorted list, which raises
  \<open>ValueError\<close> at the scalar standing before it.  Both structs have been converted in the
  source library by then.
\<close>

lemma fix_tie_raises:
  "fix_lib \<lparr>data =
      [(16, [Entry 1 (TypeInfo (Some ''w'') 16)]),
       (72, [Entry 1 (Struct (Some ''s'')
                [Mem (Field_m ''a'' 64 ''long''),
                 Typ (Union_t (Some ''u'') [Mem (Field_m ''x'' 8 ''char'')] None)])]),
       (79, [Entry 1 (Struct (Some ''s'')
                [Mem (Field_m ''a'' 72 ''long''),
                 Typ (Union_t (Some ''u'') [Mem (Field_m ''x'' 7 ''char'')] None)])])],
      cached_replacement_dict = None\<rparr>
   = ([(16, [Entry 1 (TypeInfo (Some ''w'') 16)]),
       (72, [Entry 1 (Struct (Some ''s'')
                [Mem (Field_m ''a'' 8 ''long''),
                 Typ (Union_t (Some ''u'') [Mem (Field_m ''x'' 8 ''char'')] None)])]),
       (79, [Entry 1 (Struct (Some ''s'')
                [Mem (Field_m ''a'' 9 ''long''),
                 Typ (Union_t (Some ''u'') [Mem (Field_m ''x'' 7 ''char'')] None)])])],
      Inl ValueError)"
  by (simp add: fix_eval)
subsection \<open>fix: the effect on the source library\<close>




subsection \<open>fix: the returned library\<close>


subsection \<open>get\_next\_replacements\<close>

lemma upto_0_3: "[0..3] = [0, 1, 2, 3 :: int]"
  by (simp add: upto_rec1)

text \<open>
  C4.  In a library whose corpus is one 4-byte scalar (of any name and frequency),
  \<open>get_next_replacements((0,1,2,3), (0,))\<close> returns exactly one candidate: the type set
  holding that scalar, with no accessible and no start offset remaining.  This is so when
  the cache has not been built yet (the call builds it) and when it has been built from
  this corpus; \<open>add\<close> of the scalar to a new library gives such a library.
\<close>

theorem get_next_replacements_single_scalar:
  "fst (get_next_replacements
          \<lparr>data = [(4, [Entry f (TypeInfo name 4)])], cached_replacement_dict = None\<rparr>
          [0, 1, 2, 3] [0])
   = Inr [([TypeInfo name 4], [], [])]
   \<and> fst (get_next_replacements
          (snd (make_cached_replacement_dict
             \<lparr>data = [(4, [Entry f (TypeInfo name 4)])], cached_replacement_dict = c\<rparr>))
          [0, 1, 2, 3] [0])
   = Inr [([TypeInfo name 4], [], [])]
   \<and> lib_add new_typelib (TypeInfo name 4)
   = (None, \<lparr>data = [(4, [Entry 1 (TypeInfo name 4)])], cached_replacement_dict = None\<rparr>)"
  by (simp add: get_next_replacements_def Let_def make_cached_replacement_dict_def
      cache_add_def set_add_def py_range_def upto_0_3 lib_add_def new_typelib_def
      add_entry_list_def dict_contains_def add_def add_n_def el_get_def el_set_def inc_def
      EntryList_empty)

text \<open>
  The cache is not rebuilt when it exists: with a cache built before the scalar was added,
  the one candidate has an empty type set.
\<close>

lemma get_next_replacements_stale_cache:
  "fst (get_next_replacements
          \<lparr>data = [(4, [Entry f (TypeInfo name 4)])], cached_replacement_dict = Some []\<rparr>
          [0, 1, 2, 3] [0])
   = Inr [([], [], [])]"
  by (simp add: get_next_replacements_def Let_def)

section \<open>Properties of the codec\<close>

lemma opt_str_decode: "decode (opt_str name) = Inr (case name of None \<Rightarrow> PNone | Some s \<Rightarrow> PStr s)"
  by (cases name) (simp_all add: opt_str_def)

lemma as_opt_str_decode: "as_opt_str (case name of None \<Rightarrow> PNone | Some s \<Rightarrow> PStr s) = Inr name"
  by (cases name) simp_all

lemma decode_member: "decode (member_to_json m) = Inr (PObj (OMember m))"
  by (cases m)
    (simp_all add: read_metadata_def py_get_def Field_from_json_def Padding_from_json_def)

lemma as_lays_lay_obj: "as_lays (map lay_obj ls) = Inr ls"
proof (induction ls)
  case Nil
  show ?case by simp
next
  case (Cons l ls)
  then show ?case by (cases l) simp_all
qed

lemma decode_list_map:
  "(\<And>l. l \<in> set ls \<Longrightarrow> decode (lay_to_json l) = Inr (lay_obj (unions_voided_lay l))) \<Longrightarrow>
   decode_list (map lay_to_json ls) = Inr (map lay_obj (map unions_voided_lay ls))"
  by (induction ls) simp_all

lemma decode_typeinfo:
  "decode (typeinfo_to_json t) = Inr (PObj (OTypeInfo (unions_voided t)))"
  and decode_lay: "decode (lay_to_json l) = Inr (lay_obj (unions_voided_lay l))"
proof (induction t and l)
  case (TypeInfo name sz)
  show ?case
    by (simp add: read_metadata_def py_get_def TypeInfo_from_json_def opt_str_decode
        as_opt_str_decode)
next
  case (Array nelements element_size element_type)
  show ?case by (simp add: read_metadata_def py_get_def Array_from_json_def)
next
  case (Pointer target)
  show ?case by (simp add: read_metadata_def py_get_def Pointer_from_json_def)
next
  case Void
  show ?case by (simp add: read_metadata_def py_get_def)
next
  case Disappear
  show ?case by (simp add: read_metadata_def py_get_def)
next
  case (FunctionPointer name)
  show ?case by (simp add: read_metadata_def py_get_def FunctionPointer_from_json_def)
next
  case (Struct name layout)
  then have "decode_list (map lay_to_json layout)
      = Inr (map lay_obj (map unions_voided_lay layout))"
    by (rule decode_list_map)
  then show ?case
    using as_lays_lay_obj [of "map unions_voided_lay layout"]
    by (simp add: read_metadata_def py_get_def Struct_from_json_def opt_str_decode
        as_opt_str_decode)
next
  case (Union_t name members padding)
  then have "decode_list (map lay_to_json members)
      = Inr (map lay_obj (map unions_voided_lay members))"
    by (rule decode_list_map)
  then show ?case
    by (cases padding)
      (simp_all add: read_metadata_def py_get_def opt_str_decode decode_member)
next
  case (Mem m)
  show ?case by (simp add: decode_member)
next
  case (Typ t)
  then show ?case by simp
qed

lemma unions_voided_id:
  "union_free t \<Longrightarrow> unions_voided t = t"
  and unions_voided_lay_id: "union_free_lay l \<Longrightarrow> unions_voided_lay l = l"
proof (induction t and l)
  case (Struct name layout)
  then have "map unions_voided_lay layout = layout"
    by (induction layout) simp_all
  then show ?case by simp
qed simp_all


text \<open>
  Decoding an encoded type gives the type with every union replaced by \<open>Void\<close>; types
  without unions and members come back as they were.
\<close>

lemma round_trip_typeinfo:
  "round_trip (OTypeInfo t) = Inr (PObj (OTypeInfo (unions_voided t)))"
  by (simp add: round_trip_def decode_typeinfo)

lemma round_trip_union_free:
  "union_free t \<Longrightarrow> round_trip (OTypeInfo t) = Inr (PObj (OTypeInfo t))"
  by (simp add: round_trip_typeinfo unions_voided_id)

lemma round_trip_member: "round_trip (OMember m) = Inr (PObj (OMember m))"
  by (simp add: round_trip_def decode_member)

text \<open>
  No entry list makes the round trip: a non-empty one fails to encode, the empty one
  encodes to \<open>{}\<close>, which has no \<open>"T"\<close>.  A library with a non-empty bucket fails to
  encode.
\<close>

lemma round_trip_entry_list:
  "round_trip (OEntryList (e # el)) = Inl TypeError"
  "round_trip (OEntryList []) = Inl KeyError"
  by (simp_all add: round_trip_def entrylist_to_json_def read_metadata_def py_get_def)

lemma round_trip_typelib_nonempty_bucket:
  "round_trip (OTypeLib \<lparr>data = [(k, e # el)], cached_replacement_dict = c\<rparr>)
   = Inl TypeError"
  by (simp add: round_trip_def typelib_to_json_def entrylist_to_json_def)

text \<open>
  C2.  \<open>decode(encode(x))\<close> is claimed to equal \<open>x\<close> for every variant.  For every union
  the result is \<open>Void()\<close>: \<open>Union._to_json\<close> writes the tag 8, and the decoder table has
  \<open>7: Union, 8: Void\<close>.
\<close>

theorem union_round_trip_is_void:
  "round_trip (OTypeInfo (Union_t name members padding)) = Inr (PObj (OTypeInfo Void))"
  by (simp only: round_trip_def encode.simps sum.case decode_typeinfo unions_voided.simps)

end
